theory Spec2Isabelle
  imports Main
begin

section \<open>Values of the host language\<close>

text \<open>
  The normalizers of \<^verbatim>\<open>src/background/services/chain/utils.ts\<close> are pure functions
  over JavaScript values. A property that may be missing is \<open>Undefined\<close>, \<open>Null\<close> or a
  value. A string is a list of code units, all below 256. A \<^verbatim>\<open>bigint\<close> and an ethers
  \<^verbatim>\<open>BigNumber\<close> are unbounded integers (\<open>int\<close>). A \<^verbatim>\<open>number\<close> field of a payload that the
  code tests or copies (\<^verbatim>\<open>type\<close>, \<^verbatim>\<open>v\<close>, \<^verbatim>\<open>blockNumber\<close>) is an integer. A \<^verbatim>\<open>number\<close> that
  the code computes (\<^verbatim>\<open>parseInt\<close>, \<^verbatim>\<open>Number\<close>) is \<open>NaN\<close>, an integer \<open>Num n\<close>, or \<open>Other\<close>:
  a Number that the model does not compute (an infinity, or the Number nearest to a
  fraction, as for the literal \<^verbatim>\<open>1.5\<close>).
\<close>

datatype 'a js = Undefined | Null | Val 'a

datatype number = NaN | Num int | Other

text \<open>
  What the code can throw: its own two \<^verbatim>\<open>Error\<close>s, the two faults of the ethers
  \<^verbatim>\<open>BigNumber\<close> (\<^verbatim>\<open>NUMERIC_FAULT\<close> overflow, \<^verbatim>\<open>INVALID_ARGUMENT\<close>), and the language's
  \<^verbatim>\<open>TypeError\<close>, \<^verbatim>\<open>SyntaxError\<close> and \<^verbatim>\<open>RangeError\<close>. The specification calls the first
  three \<^verbatim>\<open>MalformedInput\<close>, \<^verbatim>\<open>UnsupportedTransactionType\<close> and \<^verbatim>\<open>NumericOverflow\<close>, and the
  \<^verbatim>\<open>RangeError\<close> of the value derivation \<^verbatim>\<open>AssetValueDecodeFailure\<close>.
\<close>

datatype error =
    MalformedTransaction
  | UnknownTransactionType "int js"
  | NumericFaultOverflow
  | InvalidArgument
  | TypeError
  | SyntaxError
  | RangeError

definition bind :: "error + 'a \<Rightarrow> ('a \<Rightarrow> error + 'b) \<Rightarrow> error + 'b" where
  "bind m f = (case m of Inl e \<Rightarrow> Inl e | Inr x \<Rightarrow> f x)"

subsection \<open>Truthiness, \<^verbatim>\<open>||\<close> and \<^verbatim>\<open>??\<close>\<close>

definition truthy_string :: "string js \<Rightarrow> bool" where
  "truthy_string x = (case x of Val s \<Rightarrow> s \<noteq> [] | _ \<Rightarrow> False)"

definition truthy_int :: "int js \<Rightarrow> bool" where
  "truthy_int x = (case x of Val n \<Rightarrow> n \<noteq> 0 | _ \<Rightarrow> False)"

text \<open>A \<^verbatim>\<open>BigNumber\<close> is an object: truthy whatever its value.\<close>

definition truthy_object :: "'a js \<Rightarrow> bool" where
  "truthy_object x = (case x of Val _ \<Rightarrow> True | _ \<Rightarrow> False)"

text \<open>\<^verbatim>\<open>x ?? null\<close>\<close>

definition nullish_or_null :: "'a js \<Rightarrow> 'a js" where
  "nullish_or_null x = (case x of Val a \<Rightarrow> Val a | _ \<Rightarrow> Null)"

subsection \<open>Characters and digits\<close>

definition is_whitespace :: "char \<Rightarrow> bool" where
  "is_whitespace c = (c \<in> set [CHR 0x09, CHR 0x0A, CHR 0x0B, CHR 0x0C, CHR 0x0D, CHR 0x20, CHR 0xA0])"

definition trim :: "string \<Rightarrow> string" where
  "trim s = rev (dropWhile is_whitespace (rev (dropWhile is_whitespace s)))"

definition digit_value :: "char \<Rightarrow> int option" where
  "digit_value c =
     (let k = (of_char c :: int) in
      if 48 \<le> k \<and> k \<le> 57 then Some (k - 48)
      else if 97 \<le> k \<and> k \<le> 122 then Some (k - 87)
      else if 65 \<le> k \<and> k \<le> 90 then Some (k - 55)
      else None)"

definition is_radix_digit :: "int \<Rightarrow> char \<Rightarrow> bool" where
  "is_radix_digit R c = (case digit_value c of Some d \<Rightarrow> d < R | None \<Rightarrow> False)"

definition digits_value :: "int \<Rightarrow> string \<Rightarrow> int" where
  "digits_value R s =
     foldl (\<lambda>acc c. acc * R + (case digit_value c of Some d \<Rightarrow> d | None \<Rightarrow> 0)) 0 s"

definition all_digits :: "int \<Rightarrow> string \<Rightarrow> bool" where
  "all_digits R s = (s \<noteq> [] \<and> list_all (is_radix_digit R) s)"

text \<open>\<open>has_prefix lo up s\<close>: \<open>s\<close> starts with \<^verbatim>\<open>0\<close> and the letter \<open>lo\<close>, in either case.\<close>

definition has_prefix :: "char \<Rightarrow> char \<Rightarrow> string \<Rightarrow> bool" where
  "has_prefix lo up s = (take 2 s = [CHR ''0'', lo] \<or> take 2 s = [CHR ''0'', up])"

subsection \<open>Numbers: rounding an integer to a double\<close>

text \<open>
  A Number is an IEEE 754 double. An integer below \<open>2 ^ 53\<close> is a double; a larger one is
  rounded to 53 significant bits, to nearest, ties to even; from \<open>2 ^ 1024\<close> the result
  is an infinity.
\<close>

function bit_length :: "int \<Rightarrow> nat" where
  "bit_length n = (if n \<le> 0 then 0 else Suc (bit_length (n div 2)))"
  by pat_completeness auto
termination
  by (relation "measure nat") auto

declare bit_length.simps [simp del]

definition round_to_double :: "int \<Rightarrow> int" where
  "round_to_double n =
     (if n < 2 ^ 53 then n
      else let e = bit_length n - 53; q = n div 2 ^ e; r = n mod 2 ^ e; h = 2 ^ (e - 1)
           in if r < h \<or> (r = h \<and> even q) then q * 2 ^ e else (q + 1) * 2 ^ e)"

definition to_number :: "int \<Rightarrow> number" where
  "to_number i =
     (let m = round_to_double \<bar>i\<bar>
      in if 2 ^ 1024 \<le> m then Other else Num (if i < 0 then - m else m))"

definition MAX_SAFE_INTEGER :: int where
  "MAX_SAFE_INTEGER = 2 ^ 53 - 1"

subsection \<open>\<^verbatim>\<open>parseInt\<close>, \<^verbatim>\<open>Number\<close>, \<^verbatim>\<open>BigInt\<close>, \<^verbatim>\<open>toString\<close>, \<^verbatim>\<open>slice\<close>, \<^verbatim>\<open>toLowerCase\<close>\<close>

text \<open>
  \<^verbatim>\<open>parseInt(string, radix)\<close>: leading white space and a sign are skipped, a \<^verbatim>\<open>0x\<close> prefix
  too when the radix is 16 (or 0), and the longest run of digits of the radix is read;
  no digit gives \<open>NaN\<close>. The integer read is rounded to a double. (At radix 10 the
  language lets an implementation drop the digits after the 20th; the engines that run
  this code read them all, and so does the model.)
\<close>

definition parseInt :: "string \<Rightarrow> int \<Rightarrow> number" where
  "parseInt str radix =
     (let S0 = dropWhile is_whitespace str;
          neg = (S0 \<noteq> [] \<and> hd S0 = CHR ''-'');
          S1 = (if S0 \<noteq> [] \<and> (hd S0 = CHR ''+'' \<or> hd S0 = CHR ''-'') then tl S0 else S0);
          strip = ((radix = 0 \<or> radix = 16) \<and> has_prefix CHR ''x'' CHR ''X'' S1);
          R = (if radix = 0 then (if strip then 16 else 10) else radix);
          S2 = (if strip then drop 2 S1 else S1);
          Z = takeWhile (is_radix_digit R) S2
      in if R < 2 \<or> 36 < R then NaN
         else if Z = [] then NaN
         else to_number (if neg then - digits_value R Z else digits_value R Z))"

text \<open>
  \<^verbatim>\<open>BigInt(string)\<close>: the trimmed string is empty (zero), a decimal integer with an
  optional sign, or an unsigned \<^verbatim>\<open>0x\<close>, \<^verbatim>\<open>0o\<close> or \<^verbatim>\<open>0b\<close> literal; anything else is a
  \<^verbatim>\<open>SyntaxError\<close>.
\<close>

definition integer_literal :: "string \<Rightarrow> int option" where
  "integer_literal t =
     (if t = [] then Some 0
      else if has_prefix CHR ''x'' CHR ''X'' t then
        (if all_digits 16 (drop 2 t) then Some (digits_value 16 (drop 2 t)) else None)
      else if has_prefix CHR ''o'' CHR ''O'' t then
        (if all_digits 8 (drop 2 t) then Some (digits_value 8 (drop 2 t)) else None)
      else if has_prefix CHR ''b'' CHR ''B'' t then
        (if all_digits 2 (drop 2 t) then Some (digits_value 2 (drop 2 t)) else None)
      else if hd t = CHR ''-'' then
        (if all_digits 10 (tl t) then Some (- digits_value 10 (tl t)) else None)
      else if hd t = CHR ''+'' then
        (if all_digits 10 (tl t) then Some (digits_value 10 (tl t)) else None)
      else if all_digits 10 t then Some (digits_value 10 t)
      else None)"

definition BigInt_string :: "string \<Rightarrow> error + int" where
  "BigInt_string s = (case integer_literal (trim s) of Some i \<Rightarrow> Inr i | None \<Rightarrow> Inl SyntaxError)"

text \<open>\<^verbatim>\<open>BigInt(undefined)\<close> and \<^verbatim>\<open>BigInt(null)\<close> are \<^verbatim>\<open>TypeError\<close>s.\<close>

definition BigInt :: "string js \<Rightarrow> error + int" where
  "BigInt x = (case x of Val s \<Rightarrow> BigInt_string s | _ \<Rightarrow> Inl TypeError)"

text \<open>
  \<^verbatim>\<open>BigInt(number)\<close>: a \<^verbatim>\<open>RangeError\<close> unless the number is an integer. The code applies it to
  a result of \<^verbatim>\<open>parseInt\<close>, which is \<open>NaN\<close>, an integer, or \<open>Other\<close> for an infinity.
\<close>

definition BigInt_number :: "number \<Rightarrow> error + int" where
  "BigInt_number x = (case x of Num n \<Rightarrow> Inr n | _ \<Rightarrow> Inl RangeError)"

text \<open>
  \<^verbatim>\<open>Number(string)\<close>: the trimmed string is an integer literal as for \<^verbatim>\<open>BigInt\<close>, or a
  decimal literal: an optional sign, then \<^verbatim>\<open>Infinity\<close> or digits with an optional fraction
  and an optional exponent (\<^verbatim>\<open>12.5\<close>, \<^verbatim>\<open>.5\<close>, \<^verbatim>\<open>5.\<close>, \<^verbatim>\<open>1e3\<close>, \<^verbatim>\<open>1.5E-3\<close>). Anything else is \<open>NaN\<close>.
  A literal whose value is an integer gives that integer, rounded to a double; one whose
  value is a fraction, and \<^verbatim>\<open>Infinity\<close>, give \<open>Other\<close>.
\<close>

definition signed_digits :: "string \<Rightarrow> int option" where
  "signed_digits s =
     (if s \<noteq> [] \<and> hd s = CHR ''-'' then
        (if all_digits 10 (tl s) then Some (- digits_value 10 (tl s)) else None)
      else if s \<noteq> [] \<and> hd s = CHR ''+'' then
        (if all_digits 10 (tl s) then Some (digits_value 10 (tl s)) else None)
      else if all_digits 10 s then Some (digits_value 10 s)
      else None)"

definition decimal_literal :: "string \<Rightarrow> number" where
  "decimal_literal t =
     (let neg = (t \<noteq> [] \<and> hd t = CHR ''-'');
          u = (if t \<noteq> [] \<and> (hd t = CHR ''+'' \<or> hd t = CHR ''-'') then tl t else t);
          ip = takeWhile (is_radix_digit 10) u;
          r1 = dropWhile (is_radix_digit 10) u;
          dot = (r1 \<noteq> [] \<and> hd r1 = CHR ''.'');
          fp = (if dot then takeWhile (is_radix_digit 10) (tl r1) else []);
          r2 = (if dot then dropWhile (is_radix_digit 10) (tl r1) else r1);
          ex = (if r2 = [] then Some 0
                else if hd r2 = CHR ''e'' \<or> hd r2 = CHR ''E'' then signed_digits (tl r2)
                else None);
          mant = digits_value 10 (ip @ fp)
      in if u = ''Infinity'' then Other
         else if ip = [] \<and> fp = [] then NaN
         else case ex of
           None \<Rightarrow> NaN
         | Some e \<Rightarrow>
             let sh = e - int (length fp) in
             if 0 \<le> sh then to_number ((if neg then - mant else mant) * 10 ^ nat sh)
             else if mant mod 10 ^ nat (- sh) = 0
               then to_number ((if neg then - mant else mant) div 10 ^ nat (- sh))
             else Other)"

definition Number_string :: "string \<Rightarrow> number" where
  "Number_string s =
     (let t = trim s in
      case integer_literal t of
        Some i \<Rightarrow> to_number i
      | None \<Rightarrow> decimal_literal t)"

definition Number :: "string js \<Rightarrow> number" where
  "Number x = (case x of Val s \<Rightarrow> Number_string s | Null \<Rightarrow> Num 0 | Undefined \<Rightarrow> NaN)"

text \<open>
  \<^verbatim>\<open>Number.prototype.toString()\<close> of an integer \<open>x\<close>. The language prints the shortest
  run of digits \<open>s\<close> such that \<open>s\<close> followed by zeros is an integer \<open>p\<close> that rounds to
  \<open>x\<close>; among several such \<open>s\<close> the one nearest to \<open>x\<close>, the even one on a tie. \<open>shortest x m\<close>
  looks for \<open>p\<close> among the multiples of \<open>10 ^ m\<close> next to \<open>x\<close>, then of \<open>10 ^ (m - 1)\<close>,
  and so on down to \<open>x\<close> itself. Below \<open>10 ^ 21\<close> the digits of \<open>p\<close> are printed; from there
  on \<open>s\<close> is printed with a point after its first digit and an exponent.
\<close>

function digits10 :: "int \<Rightarrow> string" where
  "digits10 n = (if n < 10 then [char_of (48 + n)] else digits10 (n div 10) @ [char_of (48 + n mod 10)])"
  by pat_completeness auto
termination
  by (relation "measure nat") auto

declare digits10.simps [simp del]

primrec shortest :: "int \<Rightarrow> nat \<Rightarrow> int" where
  "shortest x 0 = x"
| "shortest x (Suc m) =
     (let lo = x div 10 ^ Suc m * 10 ^ Suc m;
          hi = lo + 10 ^ Suc m;
          okl = (0 < lo \<and> round_to_double lo = x);
          okh = (round_to_double hi = x)
      in if okl \<and> okh then
           (if x - lo < hi - x \<or> (x - lo = hi - x \<and> even (x div 10 ^ Suc m)) then lo else hi)
         else if okl then lo
         else if okh then hi
         else shortest x m)"

definition printed :: "int \<Rightarrow> int" where
  "printed x = shortest x (length (digits10 x) - 1)"

definition number_toString :: "number \<Rightarrow> string option" where
  "number_toString x =
     (case x of
        NaN \<Rightarrow> Some ''NaN''
      | Num n \<Rightarrow>
          let ds = digits10 (printed \<bar>n\<bar>);
              s = rev (dropWhile (\<lambda>c. c = CHR ''0'') (rev ds));
              sign = (if n < 0 then ''-'' else [])
          in if length ds \<le> 21 then Some (sign @ ds)
             else Some (sign @ [hd s] @ (if tl s = [] then [] else ''.'' @ tl s) @ ''e+'' @
                        digits10 (int (length ds) - 1))
      | Other \<Rightarrow> None)"

text \<open>\<^verbatim>\<open>parseInt(x.toString(), 10)\<close>\<close>

definition parseInt_toString :: "number \<Rightarrow> number" where
  "parseInt_toString x = (case number_toString x of Some s \<Rightarrow> parseInt s 10 | None \<Rightarrow> Other)"

text \<open>\<^verbatim>\<open>s.slice(-n)\<close>: the last \<open>n\<close> code units, or all of \<open>s\<close> when it is shorter.\<close>

definition slice_last :: "nat \<Rightarrow> string \<Rightarrow> string" where
  "slice_last n s = drop (length s - n) s"

definition lower_char :: "char \<Rightarrow> char" where
  "lower_char c =
     (let k = (of_char c :: nat) in
      if (65 \<le> k \<and> k \<le> 90) \<or> (192 \<le> k \<and> k \<le> 222 \<and> k \<noteq> 215) then char_of (k + 32) else c)"

definition toLowerCase :: "string \<Rightarrow> string" where
  "toLowerCase s = map lower_char s"

subsection \<open>The ethers \<^verbatim>\<open>BigNumber\<close>\<close>

text \<open>
  \<^verbatim>\<open>BigNumber.from(value)\<close> of ethers v5, on what the code passes it: a string that
  matches \<^verbatim>\<open>/^-?0x[0-9a-f]+$/i\<close> or \<^verbatim>\<open>/^-?[0-9]+$/\<close> is read as that integer, any other
  string and a missing value are an \<^verbatim>\<open>INVALID_ARGUMENT\<close> error. The first pattern ignores
  case, so it admits the prefix \<^verbatim>\<open>0X\<close>; the library does not know that prefix, puts \<^verbatim>\<open>0x\<close>
  before it, and its big-number parser then reads the \<^verbatim>\<open>X\<close> as the digit 8
  (\<^verbatim>\<open>0X10\<close> is 2064). \<^verbatim>\<open>toNumber()\<close> returns the value when its magnitude is below
  \<open>2 ^ 53\<close> and throws the \<^verbatim>\<open>NUMERIC_FAULT\<close> overflow otherwise. \<^verbatim>\<open>toBigInt()\<close> is the value.
\<close>

definition BigNumber_from_string :: "string \<Rightarrow> error + int" where
  "BigNumber_from_string s =
     (let neg = (s \<noteq> [] \<and> hd s = CHR ''-'');
          t = (if neg then tl s else s);
          sign = (if neg then - 1 else 1)
      in if take 2 t = ''0x'' \<and> all_digits 16 (drop 2 t)
           then Inr (sign * digits_value 16 (drop 2 t))
         else if take 2 t = ''0X'' \<and> all_digits 16 (drop 2 t)
           then Inr (sign * (8 * 16 ^ length (drop 2 t) + digits_value 16 (drop 2 t)))
         else if all_digits 10 t then Inr (sign * digits_value 10 t)
         else Inl InvalidArgument)"

definition BigNumber_from :: "string js \<Rightarrow> error + int" where
  "BigNumber_from x = (case x of Val s \<Rightarrow> BigNumber_from_string s | _ \<Rightarrow> Inl InvalidArgument)"

definition toNumber :: "int \<Rightarrow> error + int" where
  "toNumber b = (if \<bar>b\<bar> \<le> MAX_SAFE_INTEGER then Inr b else Inl NumericFaultOverflow)"

section \<open>The data model\<close>

record fungible_asset =
  symbol :: string
  asset_name :: string
  decimals :: nat

record evm_network =
  name :: string
  chainID :: string

text \<open>\<^verbatim>\<open>AnyEVMBlock\<close>, as the two block parsers build it.\<close>

record any_evm_block =
  hash :: "string js"
  blockHeight :: int
  parentHash :: "string js"
  difficulty :: int
  timestamp :: int
  baseFeePerGas :: "int js"
  network :: evm_network

text \<open>The payload of a block subscription: every field is a string when it is there.\<close>

record websocket_block =
  ws_hash :: "string js"
  ws_number :: "string js"
  ws_parentHash :: "string js"
  ws_difficulty :: "string js"
  ws_timestamp :: "string js"
  ws_baseFeePerGas :: "string js"

text \<open>
  The ethers \<^verbatim>\<open>Transaction\<close>, with the \<^verbatim>\<open>from\<close>, \<^verbatim>\<open>blockHash\<close>, \<^verbatim>\<open>blockNumber\<close> and
  \<^verbatim>\<open>type\<close> that \<^verbatim>\<open>txFromEthersTx\<close> adds to its parameter's type. The big-number fields
  are \<^verbatim>\<open>BigNumber\<close>s.
\<close>

record ethers_transaction =
  e_hash :: "string js"
  e_to :: "string js"
  e_from :: "string js"
  e_nonce :: number
  e_gasLimit :: int
  e_gasPrice :: "int js"
  e_data :: string
  e_value :: int
  e_chainId :: number
  e_r :: "string js"
  e_s :: "string js"
  e_v :: "int js"
  e_type :: "int js"
  e_maxPriorityFeePerGas :: "int js"
  e_maxFeePerGas :: "int js"
  e_blockHash :: "string js"
  e_blockNumber :: "int js"

text \<open>The payload of a transaction subscription, as \<^verbatim>\<open>txFromWebsocketTx\<close> casts it.\<close>

record websocket_transaction =
  w_hash :: "string js"
  w_to :: "string js"
  w_from :: "string js"
  w_gas :: "string js"
  w_gasPrice :: "string js"
  w_maxFeePerGas :: "string js"
  w_maxPriorityFeePerGas :: "string js"
  w_input :: "string js"
  w_r :: "string js"
  w_s :: "string js"
  w_v :: "string js"
  w_nonce :: "string js"
  w_value :: "string js"
  w_blockHash :: "string js"
  w_blockHeight :: "string js"
  w_blockNumber :: "int js"
  w_type :: "string js"

text \<open>
  \<^verbatim>\<open>AnyEVMTransaction\<close> and \<^verbatim>\<open>SignedEVMTransaction\<close>, as the parsers build them: the
  big-integer fields are \<^verbatim>\<open>bigint\<close>s, a missing fee field is \<open>Null\<close>, and the signed
  variant is the one that carries \<open>r\<close>, \<open>s\<close> and \<open>v\<close> (\<open>Undefined\<close> in the unsigned one).
\<close>

record evm_transaction =
  t_hash :: "string js"
  t_from :: "string js"
  t_to :: "string js"
  t_nonce :: number
  t_gasLimit :: int
  t_gasPrice :: "int js"
  t_maxFeePerGas :: "int js"
  t_maxPriorityFeePerGas :: "int js"
  t_value :: int
  t_input :: "string js"
  t_type :: "int js"
  t_blockHash :: "string js"
  t_blockHeight :: "int js"
  t_network :: evm_network
  t_asset :: fungible_asset
  t_r :: "string js"
  t_s :: "string js"
  t_v :: "int js"

definition is_signed :: "evm_transaction \<Rightarrow> bool" where
  "is_signed t = (t_r t \<noteq> Undefined \<and> t_s t \<noteq> Undefined \<and> t_v t \<noteq> Undefined)"

section \<open>The parsers\<close>

subsection \<open>\<^verbatim>\<open>blockFromWebsocketBlock\<close>\<close>

text \<open>
  The properties of the object literal are evaluated in the order written, so the first
  one that throws decides the error. The constant \<^verbatim>\<open>ETHEREUM\<close> is imported from a file
  that is not part of the sources: it is a parameter here.
\<close>

definition blockFromWebsocketBlock :: "evm_network \<Rightarrow> websocket_block \<Rightarrow> error + any_evm_block" where
  "blockFromWebsocketBlock ETHEREUM gethResult =
     bind (bind (BigNumber_from (ws_number gethResult)) toNumber) (\<lambda>height.
     bind (BigInt (ws_difficulty gethResult)) (\<lambda>diff.
     bind (bind (BigNumber_from (ws_timestamp gethResult)) toNumber) (\<lambda>time.
     bind (if truthy_string (ws_baseFeePerGas gethResult)
           then bind (BigInt (ws_baseFeePerGas gethResult)) (\<lambda>b. Inr (Val b))
           else Inr Undefined) (\<lambda>fee.
     Inr \<lparr> hash = ws_hash gethResult,
           blockHeight = height,
           parentHash = ws_parentHash gethResult,
           difficulty = diff,
           timestamp = time,
           baseFeePerGas = fee,
           network = ETHEREUM \<rparr>))))"

subsection \<open>\<^verbatim>\<open>ethersTxFromSignedTx\<close>\<close>

text \<open>
  The result has no \<^verbatim>\<open>hash\<close>, \<^verbatim>\<open>type\<close>, \<^verbatim>\<open>gasPrice\<close>, \<^verbatim>\<open>blockHash\<close> or \<^verbatim>\<open>blockNumber\<close>
  property. \<^verbatim>\<open>Number(tx.nonce)\<close> of a number is the number; a \<^verbatim>\<open>bigint\<close> fee is truthy
  when it is not zero; \<^verbatim>\<open>BigNumber.from\<close> of a \<^verbatim>\<open>bigint\<close> is its value.
\<close>

definition ethersTxFromSignedTx :: "evm_transaction \<Rightarrow> ethers_transaction" where
  "ethersTxFromSignedTx tx =
     \<lparr> e_hash = Undefined,
       e_to = t_to tx,
       e_from = t_from tx,
       e_nonce = t_nonce tx,
       e_gasLimit = t_gasLimit tx,
       e_gasPrice = Undefined,
       e_data = (case t_input tx of Val s \<Rightarrow> s | _ \<Rightarrow> []),
       e_value = t_value tx,
       e_chainId = parseInt (chainID (t_network tx)) 10,
       e_r = t_r tx,
       e_s = t_s tx,
       e_v = t_v tx,
       e_type = Undefined,
       e_maxPriorityFeePerGas =
         (if truthy_int (t_maxPriorityFeePerGas tx) then t_maxPriorityFeePerGas tx else Undefined),
       e_maxFeePerGas =
         (if truthy_int (t_maxFeePerGas tx) then t_maxFeePerGas tx else Undefined),
       e_blockHash = Undefined,
       e_blockNumber = Undefined \<rparr>"

subsection \<open>\<^verbatim>\<open>txFromWebsocketTx\<close>\<close>

definition txFromWebsocketTx ::
  "websocket_transaction \<Rightarrow> fungible_asset \<Rightarrow> evm_network \<Rightarrow> error + evm_transaction" where
  "txFromWebsocketTx tx asset net =
     bind (BigInt (w_gas tx)) (\<lambda>gasLimit.
     bind (BigInt (w_gasPrice tx)) (\<lambda>gasPrice.
     bind (if truthy_string (w_maxFeePerGas tx)
           then bind (BigInt (w_maxFeePerGas tx)) (\<lambda>b. Inr (Val b))
           else Inr Null) (\<lambda>maxFeePerGas.
     bind (if truthy_string (w_maxPriorityFeePerGas tx)
           then bind (BigInt (w_maxPriorityFeePerGas tx)) (\<lambda>b. Inr (Val b))
           else Inr Null) (\<lambda>maxPriorityFeePerGas.
     bind (bind (BigNumber_from (w_v tx)) toNumber) (\<lambda>v.
     bind (BigInt (w_value tx)) (\<lambda>val.
     bind (if w_type tx \<noteq> Undefined
           then bind (BigNumber_from (w_type tx)) toNumber
           else Inr 0) (\<lambda>type.
     Inr \<lparr> t_hash = w_hash tx,
           t_from = w_from tx,
           t_to = w_to tx,
           t_nonce = Number (w_nonce tx),
           t_gasLimit = gasLimit,
           t_gasPrice = Val gasPrice,
           t_maxFeePerGas = maxFeePerGas,
           t_maxPriorityFeePerGas = maxPriorityFeePerGas,
           t_value = val,
           t_input = w_input tx,
           t_type = Val type,
           t_blockHash = nullish_or_null (w_blockHash tx),
           t_blockHeight = nullish_or_null (w_blockNumber tx),
           t_network = net,
           t_asset = asset,
           t_r = (if truthy_string (w_r tx) then w_r tx else Undefined),
           t_s = (if truthy_string (w_s tx) then w_s tx else Undefined),
           t_v = Val v \<rparr>)))))))"

subsection \<open>\<^verbatim>\<open>txFromEthersTx\<close>\<close>

text \<open>The object \<^verbatim>\<open>newTx\<close> that the function assembles, for the value it has computed.\<close>

definition newTx ::
  "ethers_transaction \<Rightarrow> fungible_asset \<Rightarrow> evm_network \<Rightarrow> int \<Rightarrow> evm_transaction" where
  "newTx tx asset net val =
     \<lparr> t_hash = e_hash tx,
       t_from = e_from tx,
       t_to = e_to tx,
       t_nonce = parseInt_toString (e_nonce tx),
       t_gasLimit = e_gasLimit tx,
       t_gasPrice = (if truthy_object (e_gasPrice tx) then e_gasPrice tx else Null),
       t_maxFeePerGas = (if truthy_object (e_maxFeePerGas tx) then e_maxFeePerGas tx else Null),
       t_maxPriorityFeePerGas =
         (if truthy_object (e_maxPriorityFeePerGas tx) then e_maxPriorityFeePerGas tx else Null),
       t_value = val,
       t_input = Val (e_data tx),
       t_type = e_type tx,
       t_blockHash = (if truthy_string (e_blockHash tx) then e_blockHash tx else Null),
       t_blockHeight = (if truthy_int (e_blockNumber tx) then e_blockNumber tx else Null),
       t_network = net,
       t_asset = asset,
       t_r = Undefined,
       t_s = Undefined,
       t_v = Undefined \<rparr>"

definition txFromEthersTx ::
  "ethers_transaction \<Rightarrow> fungible_asset \<Rightarrow> evm_network \<Rightarrow> error + evm_transaction" where
  "txFromEthersTx tx asset net =
     (if e_hash tx = Undefined then Inl MalformedTransaction
      else if e_type tx \<noteq> Val 0 \<and> e_type tx \<noteq> Val 1 \<and> e_type tx \<noteq> Val 2
        then Inl (UnknownTransactionType (e_type tx))
      else
        bind (if symbol asset \<noteq> ''ETH''
              then BigInt_number (parseInt (slice_last 64 (e_data tx)) 16)
              else Inr (e_value tx)) (\<lambda>val.
        if truthy_string (e_r tx) \<and> truthy_string (e_s tx) \<and> truthy_int (e_v tx)
        then Inr ((newTx tx asset net val) \<lparr> t_r := e_r tx, t_s := e_s tx, t_v := e_v tx \<rparr>)
        else Inr (newTx tx asset net val)))"

subsection \<open>\<^verbatim>\<open>networkToEthersNetwork\<close>\<close>

record ethers_network =
  en_name :: string
  en_chainId :: number

definition networkToEthersNetwork :: "evm_network \<Rightarrow> ethers_network" where
  "networkToEthersNetwork net =
     \<lparr> en_name = (if name net = ''Ethereum'' then ''homestead'' else toLowerCase (name net)),
       en_chainId = Number_string (chainID net) \<rparr>"

section \<open>What the specification speaks of\<close>

text \<open>
  The unsigned integer that a string of digits denotes, most significant digit first:
  the sum of each digit times the power of the radix of its place.
\<close>

fun big_endian_value :: "int \<Rightarrow> string \<Rightarrow> int" where
  "big_endian_value R [] = 0"
| "big_endian_value R (c # cs) =
     (case digit_value c of Some d \<Rightarrow> d | None \<Rightarrow> 0) * R ^ length cs + big_endian_value R cs"

text \<open>
  The invariant of the data model: a legacy transaction (type 0) has a gas price and no
  fee-per-gas fields; a transaction of type 1 or 2 has both fee-per-gas fields.
\<close>

definition fee_invariant :: "int js \<Rightarrow> 'a js \<Rightarrow> 'b js \<Rightarrow> 'c js \<Rightarrow> bool" where
  "fee_invariant ty gasPrice maxFeePerGas maxPriorityFeePerGas =
     ((ty = Val 0 \<longrightarrow> truthy_object gasPrice \<and> \<not> truthy_object maxFeePerGas
                  \<and> \<not> truthy_object maxPriorityFeePerGas) \<and>
      (ty = Val 1 \<or> ty = Val 2 \<longrightarrow> truthy_object maxFeePerGas \<and> truthy_object maxPriorityFeePerGas))"

definition tx_fee_invariant :: "evm_transaction \<Rightarrow> bool" where
  "tx_fee_invariant t =
     fee_invariant (t_type t) (t_gasPrice t) (t_maxFeePerGas t) (t_maxPriorityFeePerGas t)"

text \<open>
  The value derivation of \<^verbatim>\<open>txFromEthersTx\<close> succeeds: the asset is the native one, or
  the last 64 code units of the call data start with a hexadecimal digit.
\<close>

definition value_derivable :: "ethers_transaction \<Rightarrow> fungible_asset \<Rightarrow> bool" where
  "value_derivable tx asset =
     (symbol asset = ''ETH'' \<or>
      (case parseInt (slice_last 64 (e_data tx)) 16 of Num _ \<Rightarrow> True | _ \<Rightarrow> False))"

section \<open>Sample payloads\<close>

definition ETH :: fungible_asset where
  "ETH = \<lparr> symbol = ''ETH'', asset_name = ''Ether'', decimals = 18 \<rparr>"

definition DAI :: fungible_asset where
  "DAI = \<lparr> symbol = ''DAI'', asset_name = ''Dai Stablecoin'', decimals = 18 \<rparr>"

definition mainnet :: evm_network where
  "mainnet = \<lparr> name = ''Ethereum'', chainID = ''1'' \<rparr>"

definition polygon :: evm_network where
  "polygon = \<lparr> name = ''Polygon'', chainID = ''137'' \<rparr>"

text \<open>
  Call data of a token transfer: the 4-byte selector, the padded address of the
  recipient, and the amount in 32 bytes; here 100 and \<open>10 ^ 18 + 1\<close>.
\<close>

definition transfer_100 :: string where
  "transfer_100 = ''0xa9059cbb'' @
     ''0000000000000000000000005aaeb6053f3e94c9b9a09f33669435e7ef1beaed'' @
     ''0000000000000000000000000000000000000000000000000000000000000064''"

definition transfer_big :: string where
  "transfer_big = ''0xa9059cbb'' @
     ''0000000000000000000000005aaeb6053f3e94c9b9a09f33669435e7ef1beaed'' @
     ''0000000000000000000000000000000000000000000000000de0b6b3a7640001''"

definition polled_tx :: ethers_transaction where
  "polled_tx =
     \<lparr> e_hash = Val ''0x5c50'',
       e_to = Val ''0x6b175474e89094c44da98b954eedeac495271d0f'',
       e_from = Val ''0xfb6916095ca1df60bb79ce92ce3ea74c37c5d359'',
       e_nonce = Num 7,
       e_gasLimit = 60000,
       e_gasPrice = Undefined,
       e_data = transfer_100,
       e_value = 1000000000000000000,
       e_chainId = Num 1,
       e_r = Val ''0x1'',
       e_s = Val ''0x2'',
       e_v = Val 27,
       e_type = Val 2,
       e_maxPriorityFeePerGas = Val 2000000000,
       e_maxFeePerGas = Val 30000000000,
       e_blockHash = Undefined,
       e_blockNumber = Undefined \<rparr>"

definition signed_tx :: evm_transaction where
  "signed_tx =
     \<lparr> t_hash = Val ''0x5c50'',
       t_from = Val ''0xfb6916095ca1df60bb79ce92ce3ea74c37c5d359'',
       t_to = Val ''0x6b175474e89094c44da98b954eedeac495271d0f'',
       t_nonce = Num 7,
       t_gasLimit = 21000,
       t_gasPrice = Null,
       t_maxFeePerGas = Val 30000000000,
       t_maxPriorityFeePerGas = Val 2000000000,
       t_value = 1000000000000000000,
       t_input = Val ''0x'',
       t_type = Val 2,
       t_blockHash = Null,
       t_blockHeight = Null,
       t_network = mainnet,
       t_asset = ETH,
       t_r = Val ''0x1'',
       t_s = Val ''0x2'',
       t_v = Val 1 \<rparr>"

definition subscription_tx :: websocket_transaction where
  "subscription_tx =
     \<lparr> w_hash = Val ''0x5c50'',
       w_to = Val ''0x6b175474e89094c44da98b954eedeac495271d0f'',
       w_from = Val ''0xfb6916095ca1df60bb79ce92ce3ea74c37c5d359'',
       w_gas = Val ''0x5208'',
       w_gasPrice = Val ''0x2540be400'',
       w_maxFeePerGas = Undefined,
       w_maxPriorityFeePerGas = Null,
       w_input = Val ''0x'',
       w_r = Val ''0x1'',
       w_s = Val ''0x2'',
       w_v = Val ''0x1b'',
       w_nonce = Val ''0x7'',
       w_value = Val ''0xde0b6b3a7640000'',
       w_blockHash = Null,
       w_blockHeight = Undefined,
       w_blockNumber = Undefined,
       w_type = Undefined \<rparr>"

definition subscription_block :: websocket_block where
  "subscription_block =
     \<lparr> ws_hash = Val ''0xaa11'',
       ws_number = Val ''0xd59f80'',
       ws_parentHash = Val ''0xbb22'',
       ws_difficulty = Val ''0x2540be400'',
       ws_timestamp = Val ''0x61a8f5c0'',
       ws_baseFeePerGas = Val ''0x3b9aca00'' \<rparr>"

section \<open>Lemmas about the host language\<close>

lemma bind_Inl [simp]: "bind (Inl e) f = Inl e"
  by (simp add: bind_def)

lemma bind_Inr [simp]: "bind (Inr x) f = f x"
  by (simp add: bind_def)

lemma bind_eq_Inr: "bind m f = Inr y \<longleftrightarrow> (\<exists>x. m = Inr x \<and> f x = Inr y)"
  by (cases m) simp_all

lemma digit_value_char_of:
  assumes "0 \<le> d" "d < 10"
  shows "digit_value (char_of (48 + d)) = Some d"
proof -
  have "(of_char (char_of (48 + d)) :: int) = (48 + d) mod 256"
    by (rule of_char_of)
  also have "\<dots> = 48 + d" using assms by simp
  finally show ?thesis using assms by (simp add: digit_value_def)
qed

lemma digits_value_snoc:
  "digits_value R (xs @ [c]) = digits_value R xs * R + (case digit_value c of Some d \<Rightarrow> d | None \<Rightarrow> 0)"
  by (simp add: digits_value_def)

lemma digits_value_digits10: "0 \<le> n \<Longrightarrow> digits_value 10 (digits10 n) = n"
proof (induction n rule: digits10.induct)
  case (1 n)
  show ?case
  proof (cases "n < 10")
    case True
    with "1.prems" show ?thesis
      by (subst digits10.simps) (simp add: digits_value_def digit_value_char_of)
  next
    case False
    then have ih: "digits_value 10 (digits10 (n div 10)) = n div 10"
      using "1.IH" "1.prems" by simp
    have d: "digit_value (char_of (48 + n mod 10)) = Some (n mod 10)"
      by (rule digit_value_char_of) simp_all
    show ?thesis using False
      by (subst digits10.simps) (simp add: digits_value_snoc ih d)
  qed
qed

lemma digits10_all: "0 \<le> n \<Longrightarrow> list_all (is_radix_digit 10) (digits10 n)"
proof (induction n rule: digits10.induct)
  case (1 n)
  show ?case
  proof (cases "n < 10")
    case True
    with "1.prems" show ?thesis
      by (subst digits10.simps) (simp add: is_radix_digit_def digit_value_char_of)
  next
    case False
    then have ih: "list_all (is_radix_digit 10) (digits10 (n div 10))"
      using "1.IH" "1.prems" by simp
    have d: "digit_value (char_of (48 + n mod 10)) = Some (n mod 10)"
      by (rule digit_value_char_of) simp_all
    show ?thesis using False
      by (subst digits10.simps) (simp add: ih d is_radix_digit_def)
  qed
qed

lemma digits10_nonempty: "digits10 n \<noteq> []"
  by (subst digits10.simps) simp

lemma digits10_length: "0 \<le> n \<Longrightarrow> n < 10 ^ k \<Longrightarrow> 0 < k \<Longrightarrow> length (digits10 n) \<le> k"
proof (induction n arbitrary: k rule: digits10.induct)
  case (1 n)
  show ?case
  proof (cases "n < 10")
    case True
    with "1.prems" show ?thesis
      by (subst digits10.simps) simp
  next
    case False
    obtain j where k: "k = Suc j" using "1.prems"(3) by (cases k) auto
    have "j \<noteq> 0" using False "1.prems"(2) k by (cases j) auto
    moreover have "n div 10 < 10 ^ j" using "1.prems"(2) k by simp
    ultimately have "length (digits10 (n div 10)) \<le> j"
      using "1.IH"[of j] False "1.prems"(1) by simp
    then show ?thesis using False k
      by (subst digits10.simps) simp
  qed
qed

text \<open>A decimal digit is no white space, no sign and no letter of a literal's prefix.\<close>

lemma decimal_digit_plain:
  assumes "is_radix_digit 10 c"
  shows "\<not> is_whitespace c" "c \<noteq> CHR ''-''" "c \<noteq> CHR ''+''"
    "c \<noteq> CHR ''x''" "c \<noteq> CHR ''X''" "c \<noteq> CHR ''o''" "c \<noteq> CHR ''O''"
    "c \<noteq> CHR ''b''" "c \<noteq> CHR ''B''"
  using assms
  by (auto simp: is_radix_digit_def digit_value_def is_whitespace_def Let_def split: if_splits)

lemma hex_digit_plain:
  assumes "is_radix_digit 16 c"
  shows "\<not> is_whitespace c" "c \<noteq> CHR ''-''" "c \<noteq> CHR ''+''"
  using assms
  by (auto simp: is_radix_digit_def digit_value_def is_whitespace_def Let_def split: if_splits)

lemma dropWhile_whitespace_digits:
  assumes "list_all (is_radix_digit 10) s"
  shows "dropWhile is_whitespace s = s"
  using assms by (cases s) (simp_all add: decimal_digit_plain)

lemma trim_digits:
  assumes "list_all (is_radix_digit 10) s"
  shows "trim s = s"
proof -
  have "list_all (is_radix_digit 10) (rev s)" using assms by (simp add: list_all_iff)
  then show ?thesis
    by (simp add: trim_def dropWhile_whitespace_digits assms)
qed

lemma no_prefix_digits:
  assumes "list_all (is_radix_digit 10) s"
  shows "\<not> has_prefix CHR ''x'' CHR ''X'' s" "\<not> has_prefix CHR ''o'' CHR ''O'' s"
    "\<not> has_prefix CHR ''b'' CHR ''B'' s"
proof -
  have two: "\<And>a b. take 2 s = [a, b] \<Longrightarrow> is_radix_digit 10 b"
  proof -
    fix a b assume t: "take 2 s = [a, b]"
    then have "b \<in> set (take 2 s)" by simp
    then have "b \<in> set s" by (rule in_set_takeD)
    with assms show "is_radix_digit 10 b" by (simp add: list_all_iff)
  qed
  show "\<not> has_prefix CHR ''x'' CHR ''X'' s" "\<not> has_prefix CHR ''o'' CHR ''O'' s"
    "\<not> has_prefix CHR ''b'' CHR ''B'' s"
    using two decimal_digit_plain(4-9) unfolding has_prefix_def by blast+
qed

lemma integer_literal_digits:
  assumes "all_digits 10 s"
  shows "integer_literal s = Some (digits_value 10 s)"
proof -
  from assms have ne: "s \<noteq> []" and all: "list_all (is_radix_digit 10) s"
    by (simp_all add: all_digits_def)
  from ne all have "is_radix_digit 10 (hd s)" by (cases s) simp_all
  then have "hd s \<noteq> CHR ''-''" "hd s \<noteq> CHR ''+''" by (simp_all add: decimal_digit_plain)
  with ne assms no_prefix_digits[OF all] show ?thesis
    by (simp add: integer_literal_def)
qed

lemma round_to_double_safe: "n < 2 ^ 53 \<Longrightarrow> round_to_double n = n"
  by (simp add: round_to_double_def)

lemma to_number_safe:
  assumes "\<bar>i\<bar> \<le> MAX_SAFE_INTEGER"
  shows "to_number i = Num i"
proof -
  from assms have lt: "\<bar>i\<bar> < 2 ^ 53" by (simp add: MAX_SAFE_INTEGER_def)
  then have "round_to_double \<bar>i\<bar> = \<bar>i\<bar>" by (rule round_to_double_safe)
  moreover have "\<not> (2::int) ^ 1024 \<le> \<bar>i\<bar>" using lt by simp
  ultimately show ?thesis by (simp add: to_number_def Let_def)
qed

lemma parseInt_digits10:
  assumes "0 \<le> p"
  shows "parseInt (digits10 p) 10 = to_number p"
proof -
  let ?ds = "digits10 p"
  have all: "list_all (is_radix_digit 10) ?ds" using assms by (rule digits10_all)
  have ne: "?ds \<noteq> []" by (rule digits10_nonempty)
  from ne all have "is_radix_digit 10 (hd ?ds)" by (cases ?ds) simp_all
  then have hd: "hd ?ds \<noteq> CHR ''-''" "hd ?ds \<noteq> CHR ''+''" by (simp_all add: decimal_digit_plain)
  have tw: "takeWhile (is_radix_digit 10) ?ds = ?ds"
    using all by (simp add: takeWhile_eq_all_conv list_all_iff)
  have "parseInt ?ds 10 = to_number (digits_value 10 ?ds)"
    using ne hd
    by (simp add: parseInt_def Let_def dropWhile_whitespace_digits[OF all] tw)
  then show ?thesis using assms by (simp add: digits_value_digits10)
qed

text \<open>
  What \<open>shortest\<close> returns rounds to \<open>x\<close>: it is \<open>x\<close> or a multiple that has passed the
  test. Below \<open>10 ^ 21\<close> it stays below \<open>10 ^ 21\<close>, because \<open>10 ^ 21\<close> is a double itself.
\<close>

lemma shortest_rounds:
  assumes "round_to_double x = x"
  shows "round_to_double (shortest x m) = x"
  using assms by (induction m) (auto simp: Let_def)

lemma shortest_nonneg:
  assumes "0 \<le> x"
  shows "0 \<le> shortest x m"
proof (induction m)
  case 0
  then show ?case using assms by simp
next
  case (Suc m)
  have "0 \<le> x div 10 ^ Suc m" using assms by (simp add: pos_imp_zdiv_nonneg_iff)
  then have lo: "0 \<le> x div 10 ^ Suc m * 10 ^ Suc m" by simp
  then have hi: "0 \<le> x div 10 ^ Suc m * 10 ^ Suc m + 10 ^ Suc m" by simp
  show ?case
    unfolding shortest.simps Let_def using lo hi Suc by (simp del: power_Suc)
qed

lemma round_to_double_10_21: "round_to_double (10 ^ 21) = 10 ^ 21"
  by code_simp

lemma bit_length_2_53: "bit_length 9007199254740992 = 54"
  by code_simp

lemma div_mult_le_int:
  fixes x k :: int
  assumes "0 < k"
  shows "x div k * k \<le> x"
proof -
  have "x div k * k + x mod k = x" by simp
  moreover have "0 \<le> x mod k" using assms by simp
  ultimately show ?thesis by linarith
qed

lemma div_less_int:
  fixes x k q :: int
  assumes "0 < k" and "x < q * k"
  shows "x div k < q"
proof (rule ccontr)
  assume "\<not> x div k < q"
  then have "q * k \<le> x div k * k"
    using assms(1) by (intro mult_right_mono) simp_all
  also have "\<dots> \<le> x" using assms(1) by (rule div_mult_le_int)
  finally show False using assms(2) by simp
qed

lemma next_multiple_below:
  fixes x :: int
  assumes "x < 10 ^ 21" and "k \<le> 21"
  shows "x div 10 ^ k * 10 ^ k + 10 ^ k \<le> 10 ^ 21"
proof -
  have split: "(10::int) ^ 21 = 10 ^ (21 - k) * 10 ^ k"
    using assms(2) by (simp add: power_add [symmetric])
  have "x div 10 ^ k < 10 ^ (21 - k)"
    by (rule div_less_int) (use assms(1) split in simp_all)
  then have "x div 10 ^ k + 1 \<le> 10 ^ (21 - k)" by simp
  then have "(x div 10 ^ k + 1) * 10 ^ k \<le> 10 ^ (21 - k) * 10 ^ k"
    by (rule mult_right_mono) simp
  then show ?thesis unfolding split [symmetric] by (simp add: algebra_simps)
qed

lemma shortest_below:
  assumes "x < 10 ^ 21"
  shows "m \<le> 20 \<Longrightarrow> shortest x m < 10 ^ 21"
proof (induction m)
  case 0
  then show ?case using assms by simp
next
  case (Suc m)
  let ?lo = "x div 10 ^ Suc m * 10 ^ Suc m"
  let ?hi = "?lo + 10 ^ Suc m"
  have "?lo \<le> x"
    by (rule div_mult_le_int) simp
  then have lo: "?lo < 10 ^ 21" using assms by (rule le_less_trans)
  have le: "?hi \<le> 10 ^ 21"
    using assms Suc.prems by (intro next_multiple_below) simp_all
  have hi: "?hi < 10 ^ 21" if "round_to_double ?hi = x"
  proof (rule ccontr)
    assume "\<not> ?hi < 10 ^ 21"
    with le have "?hi = 10 ^ 21" by simp
    with that have "x = 10 ^ 21" by (simp only: round_to_double_10_21)
    with assms show False by simp
  qed
  from Suc have ih: "shortest x m < 10 ^ 21" by simp
  show ?case
    unfolding shortest.simps Let_def using lo hi ih by (auto simp del: power_Suc)
qed

text \<open>
  \<^verbatim>\<open>parseInt(x.toString(), 10)\<close> is \<open>x\<close> for every integer Number \<open>x\<close> from 0 up to, not
  including, \<open>10 ^ 21\<close>.
\<close>

lemma parseInt_toString_integer:
  assumes "0 \<le> n" and "n < 10 ^ 21" and "round_to_double n = n"
  shows "parseInt_toString (Num n) = Num n"
proof -
  let ?p = "printed n"
  have "length (digits10 n) \<le> 21"
    using assms(1,2) by (rule digits10_length) simp
  then have m: "length (digits10 n) - 1 \<le> 20" by simp
  have p0: "0 \<le> ?p" unfolding printed_def using assms(1) by (rule shortest_nonneg)
  have p21: "?p < 10 ^ 21" unfolding printed_def using assms(2) m by (rule shortest_below)
  have pr: "round_to_double ?p = n" unfolding printed_def using assms(3) by (rule shortest_rounds)
  have len: "length (digits10 ?p) \<le> 21"
    using p0 p21 by (rule digits10_length) simp
  have str: "number_toString (Num n) = Some (digits10 ?p)"
    using assms(1) len by (simp add: number_toString_def Let_def)
  have "\<not> (2::int) ^ 1024 \<le> n" using assms(2) by simp
  with p0 pr have "to_number ?p = Num n"
    by (simp add: to_number_def Let_def)
  with parseInt_digits10 [OF p0] show ?thesis
    by (simp add: parseInt_toString_def str)
qed

lemma digits_value_foldl:
  "foldl (\<lambda>acc c. acc * R + (case digit_value c of Some d \<Rightarrow> d | None \<Rightarrow> 0)) a s =
     a * R ^ length s + big_endian_value R s"
  by (induction s arbitrary: a) (simp_all add: algebra_simps)

lemma digits_value_big_endian: "digits_value R s = big_endian_value R s"
  by (simp add: digits_value_def digits_value_foldl)

lemma BigNumber_from_hex:
  assumes "all_digits 16 h"
  shows "BigNumber_from (Val (''0x'' @ h)) = Inr (big_endian_value 16 h)"
  using assms
  by (simp add: BigNumber_from_def BigNumber_from_string_def Let_def digits_value_big_endian)

lemma Number_string_digits:
  assumes "all_digits 10 s"
  shows "Number_string s = to_number (big_endian_value 10 s)"
proof -
  from assms have "list_all (is_radix_digit 10) s" by (simp add: all_digits_def)
  then have "trim s = s" by (rule trim_digits)
  then show ?thesis
    by (simp add: Number_string_def integer_literal_digits[OF assms] digits_value_big_endian)
qed

lemma newTx_fields [simp]:
  "t_hash (newTx tx asset net val) = e_hash tx"
  "t_from (newTx tx asset net val) = e_from tx"
  "t_to (newTx tx asset net val) = e_to tx"
  "t_nonce (newTx tx asset net val) = parseInt_toString (e_nonce tx)"
  "t_gasLimit (newTx tx asset net val) = e_gasLimit tx"
  "t_gasPrice (newTx tx asset net val) = (if truthy_object (e_gasPrice tx) then e_gasPrice tx else Null)"
  "t_maxFeePerGas (newTx tx asset net val) =
     (if truthy_object (e_maxFeePerGas tx) then e_maxFeePerGas tx else Null)"
  "t_maxPriorityFeePerGas (newTx tx asset net val) =
     (if truthy_object (e_maxPriorityFeePerGas tx) then e_maxPriorityFeePerGas tx else Null)"
  "t_value (newTx tx asset net val) = val"
  "t_input (newTx tx asset net val) = Val (e_data tx)"
  "t_type (newTx tx asset net val) = e_type tx"
  "t_r (newTx tx asset net val) = Undefined"
  "t_s (newTx tx asset net val) = Undefined"
  "t_v (newTx tx asset net val) = Undefined"
  by (simp_all add: newTx_def)

lemma newTx_signature [simp]:
  "newTx (tx \<lparr> e_r := r \<rparr>) asset net val = newTx tx asset net val"
  "newTx (tx \<lparr> e_s := s \<rparr>) asset net val = newTx tx asset net val"
  "newTx (tx \<lparr> e_v := v \<rparr>) asset net val = newTx tx asset net val"
  by (simp_all add: newTx_def)

lemma newTx_unsigned [simp]:
  "(newTx tx asset net val) \<lparr> t_r := Undefined, t_s := Undefined, t_v := Undefined \<rparr> =
     newTx tx asset net val"
  by (simp add: newTx_def)

text \<open>What a successful call of \<^verbatim>\<open>txFromEthersTx\<close> has checked and computed.\<close>

lemma txFromEthersTx_Inr:
  assumes "txFromEthersTx tx asset net = Inr t"
  obtains val where
    "e_hash tx \<noteq> Undefined"
    "e_type tx = Val 0 \<or> e_type tx = Val 1 \<or> e_type tx = Val 2"
    "(if symbol asset \<noteq> ''ETH''
      then BigInt_number (parseInt (slice_last 64 (e_data tx)) 16)
      else Inr (e_value tx)) = Inr val"
    "t = (if truthy_string (e_r tx) \<and> truthy_string (e_s tx) \<and> truthy_int (e_v tx)
          then (newTx tx asset net val) \<lparr> t_r := e_r tx, t_s := e_s tx, t_v := e_v tx \<rparr>
          else newTx tx asset net val)"
proof -
  from assms have ok: "e_hash tx \<noteq> Undefined"
    and nt: "\<not> (e_type tx \<noteq> Val 0 \<and> e_type tx \<noteq> Val 1 \<and> e_type tx \<noteq> Val 2)"
    by (auto simp: txFromEthersTx_def split: if_splits)
  let ?v = "if symbol asset \<noteq> ''ETH''
      then BigInt_number (parseInt (slice_last 64 (e_data tx)) 16)
      else Inr (e_value tx)"
  let ?f = "\<lambda>val.
        if truthy_string (e_r tx) \<and> truthy_string (e_s tx) \<and> truthy_int (e_v tx)
        then Inr ((newTx tx asset net val) \<lparr> t_r := e_r tx, t_s := e_s tx, t_v := e_v tx \<rparr>)
        else (Inr (newTx tx asset net val) :: error + evm_transaction)"
  have "txFromEthersTx tx asset net = bind ?v ?f"
    by (simp only: txFromEthersTx_def ok nt if_False)
  with assms have "bind ?v ?f = Inr t" by simp
  then have "\<exists>val. ?v = Inr val \<and> ?f val = Inr t"
    unfolding bind_eq_Inr .
  then obtain val where v: "?v = Inr val" and t: "?f val = Inr t"
    by (elim exE conjE)
  from t have teq: "t = (if truthy_string (e_r tx) \<and> truthy_string (e_s tx) \<and> truthy_int (e_v tx)
          then (newTx tx asset net val) \<lparr> t_r := e_r tx, t_s := e_s tx, t_v := e_v tx \<rparr>
          else newTx tx asset net val)"
    by (auto split: if_splits)
  from nt have ty: "e_type tx = Val 0 \<or> e_type tx = Val 1 \<or> e_type tx = Val 2"
    by simp
  from ok ty v teq show thesis by (rule that)
qed

lemma truthy_defined:
  "truthy_string x \<Longrightarrow> x \<noteq> Undefined" "truthy_int y \<Longrightarrow> y \<noteq> Undefined"
  by (auto simp: truthy_string_def truthy_int_def)

lemma digit_value_nonneg: "digit_value c = Some d \<Longrightarrow> 0 \<le> d"
  by (auto simp: digit_value_def Let_def split: if_splits)

lemma big_endian_value_nonneg: "0 \<le> R \<Longrightarrow> 0 \<le> big_endian_value R s"
  by (induction s) (auto simp: digit_value_nonneg split: option.splits)

lemma toNumber_hex:
  assumes "all_digits 16 h"
  shows "bind (BigNumber_from (Val (''0x'' @ h))) toNumber =
           (if big_endian_value 16 h \<le> MAX_SAFE_INTEGER then Inr (big_endian_value 16 h)
            else Inl NumericFaultOverflow)"
proof -
  have "0 \<le> big_endian_value 16 h" by (rule big_endian_value_nonneg) simp
  with BigNumber_from_hex [OF assms] show ?thesis
    by (simp add: toNumber_def)
qed

lemma hex_digit_letter:
  assumes "is_radix_digit 16 c"
  shows "c \<noteq> CHR ''x''" "c \<noteq> CHR ''X''"
  using assms by (auto simp: is_radix_digit_def digit_value_def Let_def split: if_splits)

lemma parseInt_hex:
  assumes "all_digits 16 h"
  shows "parseInt h 16 = to_number (big_endian_value 16 h)"
proof -
  from assms have ne: "h \<noteq> []" and all: "list_all (is_radix_digit 16) h"
    by (simp_all add: all_digits_def)
  from ne all have hd: "is_radix_digit 16 (hd h)" by (cases h) simp_all
  have ws: "dropWhile is_whitespace h = h"
    using ne hd by (cases h) (simp_all add: hex_digit_plain)
  have sign: "hd h \<noteq> CHR ''-''" "hd h \<noteq> CHR ''+''"
    using hd by (simp_all add: hex_digit_plain)
  have "\<And>a b. take 2 h = [a, b] \<Longrightarrow> is_radix_digit 16 b"
  proof -
    fix a b assume "take 2 h = [a, b]"
    then have "b \<in> set (take 2 h)" by simp
    then have "b \<in> set h" by (rule in_set_takeD)
    with all show "is_radix_digit 16 b" by (simp add: list_all_iff)
  qed
  then have pre: "\<not> has_prefix CHR ''x'' CHR ''X'' h"
    using hex_digit_letter unfolding has_prefix_def by blast
  have tw: "takeWhile (is_radix_digit 16) h = h"
    using all by (simp add: takeWhile_eq_all_conv list_all_iff)
  show ?thesis
    using ne sign pre
    by (simp add: parseInt_def Let_def ws tw digits_value_big_endian)
qed

section \<open>The claims\<close>

subsection \<open>The value of a polled transaction\<close>

text \<open>
  C1 (the value of a non-native transfer). The specification derives the value of a
  transfer of a non-native asset from the last 32 bytes of the call data, read as a
  big-endian unsigned integer. The code reads them with \<^verbatim>\<open>parseInt\<close>, whose result is a
  double, and converts that to a \<^verbatim>\<open>bigint\<close>: a transfer of \<open>10 ^ 18 + 1\<close> units (one token of
  18 decimals and one unit) comes out as \<open>10 ^ 18\<close>.
\<close>

theorem txFromEthersTx_value_rounded:
  "map_sum id t_value (txFromEthersTx (polled_tx \<lparr> e_data := transfer_big \<rparr>) DAI mainnet)
     = Inr 1000000000000000000 \<and>
   big_endian_value 16 (slice_last 64 transfer_big) = 1000000000000000001"
  by code_simp

text \<open>
  X1 (the value of a native transfer). For the asset whose symbol is \<^verbatim>\<open>ETH\<close> the value of
  the transaction is the value of the payload.
\<close>

theorem txFromEthersTx_native_value:
  assumes "symbol asset = ''ETH''" and "txFromEthersTx tx asset net = Inr t"
  shows "t_value t = e_value tx"
proof -
  from assms(2) obtain val where
    val: "(if symbol asset \<noteq> ''ETH''
      then BigInt_number (parseInt (slice_last 64 (e_data tx)) 16)
      else Inr (e_value tx)) = Inr val" and
    t: "t = (if truthy_string (e_r tx) \<and> truthy_string (e_s tx) \<and> truthy_int (e_v tx)
          then (newTx tx asset net val) \<lparr> t_r := e_r tx, t_s := e_s tx, t_v := e_v tx \<rparr>
          else newTx tx asset net val)"
    by (rule txFromEthersTx_Inr)
  from val assms(1) have "val = e_value tx" by simp
  then show ?thesis unfolding t by simp
qed

theorem txFromEthersTx_native_value_witness:
  "map_sum id t_value (txFromEthersTx polled_tx ETH mainnet) = Inr 1000000000000000000"
proof -
  have "\<exists>t. txFromEthersTx polled_tx ETH mainnet = Inr t"
    by (simp add: txFromEthersTx_def polled_tx_def ETH_def truthy_string_def truthy_int_def)
  then obtain t where t: "txFromEthersTx polled_tx ETH mainnet = Inr t" ..
  have s: "symbol ETH = ''ETH''" by (simp add: ETH_def)
  have v: "e_value polled_tx = 1000000000000000000" by (simp add: polled_tx_def)
  from txFromEthersTx_native_value [OF s t] show ?thesis
    unfolding v t by simp
qed

text \<open>
  X2 (the value of a non-native transfer). For any other asset, when the call data ends
  in 64 hexadecimal digits, the value of the transaction is the double nearest to the
  integer they denote: that integer itself up to \<open>MAX_SAFE_INTEGER\<close>.
\<close>

theorem txFromEthersTx_derived_value:
  assumes "symbol asset \<noteq> ''ETH''"
    and "e_data tx = pre @ h" and "length h = 64" and "all_digits 16 h"
    and "txFromEthersTx tx asset net = Inr t"
  shows "t_value t = round_to_double (big_endian_value 16 h) \<and>
         (big_endian_value 16 h \<le> MAX_SAFE_INTEGER \<longrightarrow> t_value t = big_endian_value 16 h)"
proof -
  from assms(5) obtain val where
    val: "(if symbol asset \<noteq> ''ETH''
      then BigInt_number (parseInt (slice_last 64 (e_data tx)) 16)
      else Inr (e_value tx)) = Inr val" and
    t: "t = (if truthy_string (e_r tx) \<and> truthy_string (e_s tx) \<and> truthy_int (e_v tx)
          then (newTx tx asset net val) \<lparr> t_r := e_r tx, t_s := e_s tx, t_v := e_v tx \<rparr>
          else newTx tx asset net val)"
    by (rule txFromEthersTx_Inr)
  have v: "t_value t = val" unfolding t by simp
  have "slice_last 64 (e_data tx) = h"
    by (simp add: slice_last_def assms(2,3))
  with val assms(1) have "BigInt_number (to_number (big_endian_value 16 h)) = Inr val"
    by (simp add: parseInt_hex [OF assms(4)])
  moreover have "0 \<le> big_endian_value 16 h"
    by (rule big_endian_value_nonneg) simp
  ultimately have r: "val = round_to_double (big_endian_value 16 h)"
    by (auto simp: BigInt_number_def to_number_def Let_def split: if_splits)
  have "round_to_double (big_endian_value 16 h) = big_endian_value 16 h"
    if "big_endian_value 16 h \<le> MAX_SAFE_INTEGER"
    using that by (intro round_to_double_safe) (simp add: MAX_SAFE_INTEGER_def)
  with r v show ?thesis by simp
qed

theorem txFromEthersTx_derived_value_witness:
  "map_sum id t_value (txFromEthersTx polled_tx DAI mainnet) = Inr 100"
proof -
  let ?h = "''0000000000000000000000000000000000000000000000000000000000000064''"
  let ?pre = "''0xa9059cbb'' @ ''0000000000000000000000005aaeb6053f3e94c9b9a09f33669435e7ef1beaed''"
  have "map_sum id (\<lambda>_. ()) (txFromEthersTx polled_tx DAI mainnet) = Inr ()"
    by code_simp
  then obtain t where t: "txFromEthersTx polled_tx DAI mainnet = Inr t"
    by (cases "txFromEthersTx polled_tx DAI mainnet") auto
  have s: "symbol DAI \<noteq> ''ETH''" by (simp add: DAI_def)
  have d: "e_data polled_tx = ?pre @ ?h" by (simp add: polled_tx_def transfer_100_def)
  have l: "length ?h = 64" by simp
  have a: "all_digits 16 ?h" by code_simp
  have v: "big_endian_value 16 ?h = 100" by code_simp
  from txFromEthersTx_derived_value [OF s d l a t] show ?thesis
    unfolding v t by (simp add: MAX_SAFE_INTEGER_def)
qed

subsection \<open>The type of a polled transaction\<close>

text \<open>
  C2 (the type check of \<^verbatim>\<open>txFromEthersTx\<close>). When the type of the payload is not 0, 1 or
  2 the function returns no transaction: it throws, and what it throws is the
  unknown-type error as soon as the hash is there (the hash is checked first). When the
  hash is there, the type is 0, 1 or 2 and the value can be derived, the function
  returns a transaction of the payload's type.
\<close>

theorem txFromEthersTx_type_check:
  "(e_type tx \<noteq> Val 0 \<and> e_type tx \<noteq> Val 1 \<and> e_type tx \<noteq> Val 2 \<longrightarrow>
      (\<exists>e. txFromEthersTx tx asset net = Inl e) \<and>
      (e_hash tx \<noteq> Undefined \<longrightarrow>
         txFromEthersTx tx asset net = Inl (UnknownTransactionType (e_type tx)))) \<and>
   (e_hash tx \<noteq> Undefined \<and> (e_type tx = Val 0 \<or> e_type tx = Val 1 \<or> e_type tx = Val 2) \<and>
    value_derivable tx asset \<longrightarrow>
      (\<exists>t. txFromEthersTx tx asset net = Inr t \<and> t_type t = e_type tx))"
proof (intro conjI impI)
  assume "e_type tx \<noteq> Val 0 \<and> e_type tx \<noteq> Val 1 \<and> e_type tx \<noteq> Val 2"
  then show "\<exists>e. txFromEthersTx tx asset net = Inl e"
    by (simp add: txFromEthersTx_def)
next
  assume "e_type tx \<noteq> Val 0 \<and> e_type tx \<noteq> Val 1 \<and> e_type tx \<noteq> Val 2" "e_hash tx \<noteq> Undefined"
  then show "txFromEthersTx tx asset net = Inl (UnknownTransactionType (e_type tx))"
    by (simp add: txFromEthersTx_def)
next
  assume a: "e_hash tx \<noteq> Undefined \<and> (e_type tx = Val 0 \<or> e_type tx = Val 1 \<or> e_type tx = Val 2) \<and>
    value_derivable tx asset"
  then have "\<exists>val. (if symbol asset \<noteq> ''ETH''
              then BigInt_number (parseInt (slice_last 64 (e_data tx)) 16)
              else Inr (e_value tx)) = Inr val"
    by (auto simp: value_derivable_def BigInt_number_def split: number.splits)
  then obtain val where "(if symbol asset \<noteq> ''ETH''
              then BigInt_number (parseInt (slice_last 64 (e_data tx)) 16)
              else Inr (e_value tx)) = Inr val" ..
  with a show "\<exists>t. txFromEthersTx tx asset net = Inr t \<and> t_type t = e_type tx"
    by (auto simp: txFromEthersTx_def Let_def)
qed

theorem txFromEthersTx_type_check_witness:
  "txFromEthersTx (polled_tx \<lparr> e_type := Val 3 \<rparr>) DAI mainnet = Inl (UnknownTransactionType (Val 3)) \<and>
   (\<exists>e. txFromEthersTx (polled_tx \<lparr> e_type := Null, e_hash := Undefined \<rparr>) DAI mainnet = Inl e) \<and>
   (\<exists>t. txFromEthersTx polled_tx DAI mainnet = Inr t \<and> t_type t = Val 2)"
proof -
  have h3: "e_type (polled_tx \<lparr> e_type := Val 3 \<rparr>) \<noteq> Val 0 \<and> e_type (polled_tx \<lparr> e_type := Val 3 \<rparr>) \<noteq> Val 1
      \<and> e_type (polled_tx \<lparr> e_type := Val 3 \<rparr>) \<noteq> Val 2"
    "e_hash (polled_tx \<lparr> e_type := Val 3 \<rparr>) \<noteq> Undefined"
    by (simp_all add: polled_tx_def)
  have hn: "e_type (polled_tx \<lparr> e_type := Null, e_hash := Undefined \<rparr>) \<noteq> Val 0
      \<and> e_type (polled_tx \<lparr> e_type := Null, e_hash := Undefined \<rparr>) \<noteq> Val 1
      \<and> e_type (polled_tx \<lparr> e_type := Null, e_hash := Undefined \<rparr>) \<noteq> Val 2"
    by simp
  have d: "value_derivable polled_tx DAI"
    by code_simp
  have h2: "e_hash polled_tx \<noteq> Undefined \<and>
      (e_type polled_tx = Val 0 \<or> e_type polled_tx = Val 1 \<or> e_type polled_tx = Val 2) \<and>
      value_derivable polled_tx DAI"
    using d by (simp add: polled_tx_def)
  have ty: "e_type polled_tx = Val 2" "e_type (polled_tx \<lparr> e_type := Val 3 \<rparr>) = Val 3"
    by (simp_all add: polled_tx_def)
  show ?thesis
    using txFromEthersTx_type_check [of "polled_tx \<lparr> e_type := Val 3 \<rparr>" DAI mainnet]
      txFromEthersTx_type_check [of "polled_tx \<lparr> e_type := Null, e_hash := Undefined \<rparr>" DAI mainnet]
      txFromEthersTx_type_check [of polled_tx DAI mainnet] h3 hn h2
    unfolding ty by blast
qed

subsection \<open>The signed and the unsigned variant\<close>

text \<open>
  C3 (the one branch between the variants). A transaction that \<^verbatim>\<open>txFromEthersTx\<close>
  returns is the signed variant exactly when \<open>r\<close>, \<open>s\<close> and \<open>v\<close> of the payload are all
  truthy (a non-empty string, a non-empty string, a number other than zero); it then
  carries the three as they are, and carries none of them otherwise. Nothing else
  depends on them: with any other \<open>r\<close>, \<open>s\<close> and \<open>v\<close> the function returns the same
  transaction, with these three fields set by the same test.
\<close>

theorem txFromEthersTx_signed_variant:
  assumes "txFromEthersTx tx asset net = Inr t"
  shows "(is_signed t \<longleftrightarrow> truthy_string (e_r tx) \<and> truthy_string (e_s tx) \<and> truthy_int (e_v tx)) \<and>
         (is_signed t \<longrightarrow> t_r t = e_r tx \<and> t_s t = e_s tx \<and> t_v t = e_v tx) \<and>
         (\<not> is_signed t \<longrightarrow> t_r t = Undefined \<and> t_s t = Undefined \<and> t_v t = Undefined) \<and>
         (\<forall>r s v. txFromEthersTx (tx \<lparr> e_r := r, e_s := s, e_v := v \<rparr>) asset net =
            Inr (if truthy_string r \<and> truthy_string s \<and> truthy_int v
                 then t \<lparr> t_r := r, t_s := s, t_v := v \<rparr>
                 else t \<lparr> t_r := Undefined, t_s := Undefined, t_v := Undefined \<rparr>))"
proof -
  from assms obtain val where
    ok: "e_hash tx \<noteq> Undefined" "e_type tx = Val 0 \<or> e_type tx = Val 1 \<or> e_type tx = Val 2" and
    val: "(if symbol asset \<noteq> ''ETH''
      then BigInt_number (parseInt (slice_last 64 (e_data tx)) 16)
      else Inr (e_value tx)) = Inr val" and
    t: "t = (if truthy_string (e_r tx) \<and> truthy_string (e_s tx) \<and> truthy_int (e_v tx)
          then (newTx tx asset net val) \<lparr> t_r := e_r tx, t_s := e_s tx, t_v := e_v tx \<rparr>
          else newTx tx asset net val)"
    by (rule txFromEthersTx_Inr)
  have a: "is_signed t \<longleftrightarrow> truthy_string (e_r tx) \<and> truthy_string (e_s tx) \<and> truthy_int (e_v tx)"
    using t truthy_defined(1) [of "e_r tx"] truthy_defined(1) [of "e_s tx"] truthy_defined(2) [of "e_v tx"]
    by (simp add: is_signed_def)
  have b: "is_signed t \<longrightarrow> t_r t = e_r tx \<and> t_s t = e_s tx \<and> t_v t = e_v tx"
    unfolding a using t by simp
  have c: "\<not> is_signed t \<longrightarrow> t_r t = Undefined \<and> t_s t = Undefined \<and> t_v t = Undefined"
    unfolding a using t by auto
  have d: "txFromEthersTx (tx \<lparr> e_r := r, e_s := s, e_v := v \<rparr>) asset net =
            Inr (if truthy_string r \<and> truthy_string s \<and> truthy_int v
                 then t \<lparr> t_r := r, t_s := s, t_v := v \<rparr>
                 else t \<lparr> t_r := Undefined, t_s := Undefined, t_v := Undefined \<rparr>)" for r s v
    using ok val unfolding t txFromEthersTx_def by auto
  from a b c d show ?thesis by blast
qed

theorem txFromEthersTx_signed_variant_witness:
  "\<exists>t. txFromEthersTx polled_tx ETH mainnet = Inr t \<and>
       is_signed t \<and> t_r t = Val ''0x1'' \<and> t_s t = Val ''0x2'' \<and> t_v t = Val 27 \<and>
       txFromEthersTx (polled_tx \<lparr> e_r := Undefined, e_s := Val ''0x2'', e_v := Val 27 \<rparr>) ETH mainnet =
         Inr (t \<lparr> t_r := Undefined, t_s := Undefined, t_v := Undefined \<rparr>)"
proof -
  have "\<exists>t. txFromEthersTx polled_tx ETH mainnet = Inr t"
    by (simp add: txFromEthersTx_def polled_tx_def ETH_def truthy_string_def truthy_int_def)
  then obtain t where t: "txFromEthersTx polled_tx ETH mainnet = Inr t" ..
  have p: "e_r polled_tx = Val ''0x1''" "e_s polled_tx = Val ''0x2''" "e_v polled_tx = Val 27"
    by (simp_all add: polled_tx_def)
  have tr: "truthy_string (Val ''0x1'')" "truthy_string (Val ''0x2'')" "truthy_int (Val 27)"
    "\<not> truthy_string Undefined"
    by (simp_all add: truthy_string_def truthy_int_def)
  from txFromEthersTx_signed_variant [OF t] p tr t show ?thesis
    by auto
qed

subsection \<open>From a signed transaction to the provider and back\<close>

text \<open>
  X3 (the provider's transaction of a signed transaction). \<^verbatim>\<open>ethersTxFromSignedTx\<close>
  copies \<open>nonce\<close>, \<open>to\<close>, \<open>from\<close>, \<open>value\<close>, \<open>gasLimit\<close>, \<open>r\<close>, \<open>s\<close> and \<open>v\<close> as they are, and
  gives its result no hash: \<^verbatim>\<open>txFromEthersTx\<close> rejects that result as malformed, for every
  signed transaction, asset and network.
\<close>

theorem ethersTxFromSignedTx_fields:
  "e_nonce (ethersTxFromSignedTx stx) = t_nonce stx \<and>
   e_to (ethersTxFromSignedTx stx) = t_to stx \<and>
   e_from (ethersTxFromSignedTx stx) = t_from stx \<and>
   e_value (ethersTxFromSignedTx stx) = t_value stx \<and>
   e_gasLimit (ethersTxFromSignedTx stx) = t_gasLimit stx \<and>
   e_r (ethersTxFromSignedTx stx) = t_r stx \<and>
   e_s (ethersTxFromSignedTx stx) = t_s stx \<and>
   e_v (ethersTxFromSignedTx stx) = t_v stx \<and>
   txFromEthersTx (ethersTxFromSignedTx stx) asset net = Inl MalformedTransaction"
  by (simp add: ethersTxFromSignedTx_def txFromEthersTx_def)

text \<open>
  X4 (what \<^verbatim>\<open>txFromEthersTx\<close> keeps). A transaction that \<^verbatim>\<open>txFromEthersTx\<close> returns has the
  \<open>hash\<close>, \<open>to\<close>, \<open>from\<close> and \<open>gasLimit\<close> of the payload and its call data as \<open>input\<close>. Its
  nonce is the payload's whenever that is an integer Number from 0 up to, not including,
  \<open>10 ^ 21\<close> (from there on \<^verbatim>\<open>toString\<close> prints an exponent, and \<^verbatim>\<open>parseInt\<close> reads the
  digits before the point).
\<close>

theorem txFromEthersTx_keeps_fields:
  assumes "txFromEthersTx tx asset net = Inr t"
  shows "t_hash t = e_hash tx \<and> t_to t = e_to tx \<and> t_from t = e_from tx \<and>
         t_gasLimit t = e_gasLimit tx \<and> t_input t = Val (e_data tx) \<and>
         (e_nonce tx = Num n \<and> 0 \<le> n \<and> n < 10 ^ 21 \<and> round_to_double n = n \<longrightarrow>
            t_nonce t = e_nonce tx)"
proof -
  from assms obtain val where
    t: "t = (if truthy_string (e_r tx) \<and> truthy_string (e_s tx) \<and> truthy_int (e_v tx)
          then (newTx tx asset net val) \<lparr> t_r := e_r tx, t_s := e_s tx, t_v := e_v tx \<rparr>
          else newTx tx asset net val)"
    by (rule txFromEthersTx_Inr)
  have "t_nonce t = e_nonce tx"
    if "e_nonce tx = Num n \<and> 0 \<le> n \<and> n < 10 ^ 21 \<and> round_to_double n = n"
  proof -
    from that have "parseInt_toString (Num n) = Num n"
      by (intro parseInt_toString_integer) simp_all
    with that show ?thesis unfolding t by simp
  qed
  then show ?thesis unfolding t by simp
qed

theorem txFromEthersTx_keeps_fields_witness:
  "map_sum id t_nonce (txFromEthersTx (polled_tx \<lparr> e_nonce := Num 9007199254740992 \<rparr>) ETH mainnet) =
     Inr (Num 9007199254740992) \<and>
   map_sum id t_gasLimit (txFromEthersTx (polled_tx \<lparr> e_nonce := Num 9007199254740992 \<rparr>) ETH mainnet) =
     Inr 60000"
proof -
  let ?p = "polled_tx \<lparr> e_nonce := Num 9007199254740992 \<rparr>"
  have "\<exists>t. txFromEthersTx ?p ETH mainnet = Inr t"
    by (simp add: txFromEthersTx_def polled_tx_def ETH_def truthy_string_def truthy_int_def)
  then obtain t where t: "txFromEthersTx ?p ETH mainnet = Inr t" ..
  have n: "e_nonce ?p = Num 9007199254740992 \<and> (0::int) \<le> 9007199254740992 \<and>
      (9007199254740992::int) < 10 ^ 21 \<and> round_to_double 9007199254740992 = 9007199254740992"
    by (simp add: round_to_double_def bit_length_2_53)
  have g: "e_gasLimit ?p = 60000" by (simp add: polled_tx_def)
  from txFromEthersTx_keeps_fields [OF t, of 9007199254740992] n g show ?thesis
    unfolding t by simp
qed

text \<open>
  X5 (the round trip, once it is feasible). Take a signed transaction whose \<open>r\<close> and \<open>s\<close>
  are non-empty, whose \<open>v\<close> is not zero and whose nonce is an integer Number from 0 up to,
  not including, \<open>10 ^ 21\<close>. Give the result of \<^verbatim>\<open>ethersTxFromSignedTx\<close> a hash and a type
  0, 1 or 2, and parse it for the native asset, or for another asset when the value of
  the transaction is the one that its input derives. Then the parse succeeds, and
  \<open>nonce\<close>, \<open>to\<close>, \<open>from\<close>, \<open>value\<close>, \<open>gasLimit\<close>, \<open>r\<close>, \<open>s\<close> and \<open>v\<close> are those of the signed
  transaction.
\<close>

theorem round_trip_preserves:
  assumes "truthy_string (t_r stx)" and "truthy_string (t_s stx)" and "truthy_int (t_v stx)"
    and "t_nonce stx = Num n" and "0 \<le> n" and "n < 10 ^ 21" and "round_to_double n = n"
    and "h \<noteq> Undefined" and "ty = 0 \<or> ty = 1 \<or> ty = 2"
    and "symbol asset = ''ETH'' \<or>
         BigInt_number (parseInt (slice_last 64 (case t_input stx of Val s \<Rightarrow> s | _ \<Rightarrow> [])) 16) =
           Inr (t_value stx)"
  shows "\<exists>t. txFromEthersTx ((ethersTxFromSignedTx stx) \<lparr> e_hash := h, e_type := Val ty \<rparr>) asset net = Inr t \<and>
             t_nonce t = t_nonce stx \<and> t_to t = t_to stx \<and> t_from t = t_from stx \<and>
             t_value t = t_value stx \<and> t_gasLimit t = t_gasLimit stx \<and>
             t_r t = t_r stx \<and> t_s t = t_s stx \<and> t_v t = t_v stx"
proof -
  let ?e = "(ethersTxFromSignedTx stx) \<lparr> e_hash := h, e_type := Val ty \<rparr>"
  have fields: "e_hash ?e = h" "e_type ?e = Val ty" "e_r ?e = t_r stx" "e_s ?e = t_s stx"
    "e_v ?e = t_v stx" "e_nonce ?e = Num n" "e_to ?e = t_to stx" "e_from ?e = t_from stx"
    "e_value ?e = t_value stx" "e_gasLimit ?e = t_gasLimit stx"
    "e_data ?e = (case t_input stx of Val s \<Rightarrow> s | _ \<Rightarrow> [])"
    by (simp_all add: ethersTxFromSignedTx_def assms(4))
  have nonce: "parseInt_toString (Num n) = Num n"
    using assms(5,6,7) by (rule parseInt_toString_integer)
  have val: "(if symbol asset \<noteq> ''ETH''
              then BigInt_number (parseInt (slice_last 64 (e_data ?e)) 16)
              else Inr (e_value ?e)) = Inr (t_value stx)"
    using assms(10) unfolding fields by auto
  have ty: "\<not> (e_type ?e \<noteq> Val 0 \<and> e_type ?e \<noteq> Val 1 \<and> e_type ?e \<noteq> Val 2)"
    unfolding fields using assms(9) by auto
  have hash: "e_hash ?e \<noteq> Undefined"
    unfolding fields by (rule assms(8))
  have sig: "truthy_string (e_r ?e) \<and> truthy_string (e_s ?e) \<and> truthy_int (e_v ?e)"
    unfolding fields using assms(1-3) by simp
  have "txFromEthersTx ?e asset net =
      Inr ((newTx ?e asset net (t_value stx)) \<lparr> t_r := e_r ?e, t_s := e_s ?e, t_v := e_v ?e \<rparr>)"
    by (simp only: txFromEthersTx_def hash ty val sig if_True if_False bind_Inr simp_thms)
  moreover have "t_nonce (newTx ?e asset net (t_value stx)) = t_nonce stx"
    "t_to (newTx ?e asset net (t_value stx)) = t_to stx"
    "t_from (newTx ?e asset net (t_value stx)) = t_from stx"
    "t_value (newTx ?e asset net (t_value stx)) = t_value stx"
    "t_gasLimit (newTx ?e asset net (t_value stx)) = t_gasLimit stx"
    unfolding newTx_fields fields by (simp_all add: nonce assms(4))
  ultimately show ?thesis
    unfolding fields by simp
qed

theorem round_trip_preserves_witness:
  "\<exists>t. txFromEthersTx ((ethersTxFromSignedTx signed_tx) \<lparr> e_hash := Val ''0x5c50'', e_type := Val 2 \<rparr>)
         ETH mainnet = Inr t \<and>
       t_nonce t = Num 7 \<and> t_to t = t_to signed_tx \<and> t_from t = t_from signed_tx \<and>
       t_value t = 1000000000000000000 \<and> t_gasLimit t = 21000 \<and>
       t_r t = Val ''0x1'' \<and> t_s t = Val ''0x2'' \<and> t_v t = Val 1"
proof -
  have s: "t_r signed_tx = Val ''0x1''" "t_s signed_tx = Val ''0x2''" "t_v signed_tx = Val 1"
    "t_nonce signed_tx = Num 7" "t_value signed_tx = 1000000000000000000"
    "t_gasLimit signed_tx = 21000"
    by (simp_all add: signed_tx_def)
  have a: "truthy_string (t_r signed_tx)" "truthy_string (t_s signed_tx)" "truthy_int (t_v signed_tx)"
    unfolding s by (simp_all add: truthy_string_def truthy_int_def)
  have n: "(0::int) \<le> 7" "(7::int) < 10 ^ 21" "round_to_double 7 = 7"
    by (simp_all add: round_to_double_def)
  have h: "Val ''0x5c50'' \<noteq> (Undefined :: string js)" "(2::int) = 0 \<or> (2::int) = 1 \<or> (2::int) = 2"
    by simp_all
  have e: "symbol ETH = ''ETH'' \<or>
         BigInt_number (parseInt (slice_last 64 (case t_input signed_tx of Val s \<Rightarrow> s | _ \<Rightarrow> [])) 16) =
           Inr (t_value signed_tx)"
    by (simp add: ETH_def)
  from round_trip_preserves [OF a s(4) n h e, of mainnet] show ?thesis
    unfolding s .
qed

subsection \<open>The type and the fee fields\<close>

text \<open>
  C5 (the invariant of the type and the fee fields). The claim is that every
  transaction a normalizer produces satisfies the invariant. Neither normalizer compares
  the type with the fee fields. A polled access-list transaction (type 1), which has a
  gas price and no fee-per-gas fields, comes out as it came in; so does a subscription
  payload of type 2 without fee-per-gas fields.
\<close>

theorem normalizers_break_fee_invariant:
  "map_sum id tx_fee_invariant
     (txFromEthersTx (polled_tx \<lparr> e_type := Val 1, e_gasPrice := Val 10000000000,
        e_maxFeePerGas := Undefined, e_maxPriorityFeePerGas := Undefined \<rparr>) ETH mainnet) = Inr False \<and>
   map_sum id tx_fee_invariant
     (txFromWebsocketTx (subscription_tx \<lparr> w_type := Val ''0x2'' \<rparr>) ETH mainnet) = Inr False"
  by code_simp

text \<open>
  C5, as the code has it. A transaction that a normalizer produces has the type of the
  payload (0 when a subscription payload has no type) and has each fee field exactly
  when the payload has it: for a polled payload when the field is there, for a
  subscription payload when it is a non-empty string, its gas price always. So the
  transaction satisfies the invariant exactly when the payload's type and fee fields do.
\<close>

theorem normalizers_keep_fee_fields:
  "(txFromEthersTx tx asset net = Inr t \<longrightarrow>
      t_type t = e_type tx \<and>
      (t_gasPrice t = Null \<longleftrightarrow> \<not> truthy_object (e_gasPrice tx)) \<and>
      (t_maxFeePerGas t = Null \<longleftrightarrow> \<not> truthy_object (e_maxFeePerGas tx)) \<and>
      (t_maxPriorityFeePerGas t = Null \<longleftrightarrow> \<not> truthy_object (e_maxPriorityFeePerGas tx)) \<and>
      (tx_fee_invariant t \<longleftrightarrow>
         fee_invariant (t_type t) (e_gasPrice tx) (e_maxFeePerGas tx) (e_maxPriorityFeePerGas tx))) \<and>
   (txFromWebsocketTx w asset net = Inr u \<longrightarrow>
      (w_type w = Undefined \<longrightarrow> t_type u = Val 0) \<and>
      (w_type w \<noteq> Undefined \<longrightarrow> map_sum id Val (bind (BigNumber_from (w_type w)) toNumber) = Inr (t_type u)) \<and>
      t_gasPrice u \<noteq> Null \<and>
      (t_maxFeePerGas u = Null \<longleftrightarrow> \<not> truthy_string (w_maxFeePerGas w)) \<and>
      (t_maxPriorityFeePerGas u = Null \<longleftrightarrow> \<not> truthy_string (w_maxPriorityFeePerGas w)) \<and>
      (tx_fee_invariant u \<longleftrightarrow>
         (t_type u = Val 0 \<longrightarrow>
            \<not> truthy_string (w_maxFeePerGas w) \<and> \<not> truthy_string (w_maxPriorityFeePerGas w)) \<and>
         (t_type u = Val 1 \<or> t_type u = Val 2 \<longrightarrow>
            truthy_string (w_maxFeePerGas w) \<and> truthy_string (w_maxPriorityFeePerGas w))))"
proof -
  have obj: "(if truthy_object x then x else Null) = Null \<longleftrightarrow> \<not> truthy_object x"
    "truthy_object (if truthy_object x then x else Null) = truthy_object x" for x :: "int js"
    by (auto simp: truthy_object_def split: js.splits)
  have polled: "t_type t = e_type tx \<and>
      (t_gasPrice t = Null \<longleftrightarrow> \<not> truthy_object (e_gasPrice tx)) \<and>
      (t_maxFeePerGas t = Null \<longleftrightarrow> \<not> truthy_object (e_maxFeePerGas tx)) \<and>
      (t_maxPriorityFeePerGas t = Null \<longleftrightarrow> \<not> truthy_object (e_maxPriorityFeePerGas tx)) \<and>
      (tx_fee_invariant t \<longleftrightarrow>
         fee_invariant (t_type t) (e_gasPrice tx) (e_maxFeePerGas tx) (e_maxPriorityFeePerGas tx))"
    if "txFromEthersTx tx asset net = Inr t"
  proof -
    from that obtain val where
      ty: "e_type tx = Val 0 \<or> e_type tx = Val 1 \<or> e_type tx = Val 2" and
      t: "t = (if truthy_string (e_r tx) \<and> truthy_string (e_s tx) \<and> truthy_int (e_v tx)
          then (newTx tx asset net val) \<lparr> t_r := e_r tx, t_s := e_s tx, t_v := e_v tx \<rparr>
          else newTx tx asset net val)"
      by (rule txFromEthersTx_Inr)
    have f: "t_type t = t_type (newTx tx asset net val)"
      "t_gasPrice t = t_gasPrice (newTx tx asset net val)"
      "t_maxFeePerGas t = t_maxFeePerGas (newTx tx asset net val)"
      "t_maxPriorityFeePerGas t = t_maxPriorityFeePerGas (newTx tx asset net val)"
      unfolding t by simp_all
    have "t_type t = e_type tx" unfolding f by simp
    then show ?thesis
      unfolding tx_fee_invariant_def f
      by (simp add: obj fee_invariant_def)
  qed
  have sub: "(w_type w = Undefined \<longrightarrow> t_type u = Val 0) \<and>
      (w_type w \<noteq> Undefined \<longrightarrow> map_sum id Val (bind (BigNumber_from (w_type w)) toNumber) = Inr (t_type u)) \<and>
      t_gasPrice u \<noteq> Null \<and>
      (t_maxFeePerGas u = Null \<longleftrightarrow> \<not> truthy_string (w_maxFeePerGas w)) \<and>
      (t_maxPriorityFeePerGas u = Null \<longleftrightarrow> \<not> truthy_string (w_maxPriorityFeePerGas w)) \<and>
      (tx_fee_invariant u \<longleftrightarrow>
         (t_type u = Val 0 \<longrightarrow>
            \<not> truthy_string (w_maxFeePerGas w) \<and> \<not> truthy_string (w_maxPriorityFeePerGas w)) \<and>
         (t_type u = Val 1 \<or> t_type u = Val 2 \<longrightarrow>
            truthy_string (w_maxFeePerGas w) \<and> truthy_string (w_maxPriorityFeePerGas w)))"
    if "txFromWebsocketTx w asset net = Inr u"
    using that
    by (auto simp: txFromWebsocketTx_def bind_eq_Inr tx_fee_invariant_def fee_invariant_def
        truthy_object_def split: if_splits)
  from polled sub show ?thesis by blast
qed

theorem normalizers_keep_fee_fields_witness:
  "(\<exists>t. txFromEthersTx polled_tx ETH mainnet = Inr t \<and> t_type t = Val 2 \<and> t_gasPrice t = Null \<and>
        t_maxFeePerGas t \<noteq> Null \<and> t_maxPriorityFeePerGas t \<noteq> Null \<and> tx_fee_invariant t) \<and>
   (\<exists>u. txFromWebsocketTx subscription_tx ETH mainnet = Inr u \<and> t_type u = Val 0 \<and>
        t_gasPrice u \<noteq> Null \<and> t_maxFeePerGas u = Null \<and> t_maxPriorityFeePerGas u = Null \<and>
        tx_fee_invariant u)"
proof -
  have "\<exists>t. txFromEthersTx polled_tx ETH mainnet = Inr t"
    by (simp add: txFromEthersTx_def polled_tx_def ETH_def truthy_string_def truthy_int_def)
  then obtain t where t: "txFromEthersTx polled_tx ETH mainnet = Inr t" ..
  have "map_sum id t_type (txFromWebsocketTx subscription_tx ETH mainnet) = Inr (Val 0)"
    by code_simp
  then obtain u where u: "txFromWebsocketTx subscription_tx ETH mainnet = Inr u" "t_type u = Val 0"
    by (cases "txFromWebsocketTx subscription_tx ETH mainnet") auto
  have p: "e_type polled_tx = Val 2" "\<not> truthy_object (e_gasPrice polled_tx)"
    "truthy_object (e_maxFeePerGas polled_tx)" "truthy_object (e_maxPriorityFeePerGas polled_tx)"
    by (simp_all add: polled_tx_def truthy_object_def)
  have w: "\<not> truthy_string (w_maxFeePerGas subscription_tx)"
    "\<not> truthy_string (w_maxPriorityFeePerGas subscription_tx)"
    by (simp_all add: subscription_tx_def truthy_string_def)
  from normalizers_keep_fee_fields
    [where tx = polled_tx and asset = ETH and net = mainnet and t = t
       and w = subscription_tx and u = u] t u p w
  show ?thesis
    by (auto simp: fee_invariant_def)
qed

subsection \<open>Blocks of a subscription\<close>

text \<open>
  C6 (a block without a hash). The claim is that \<^verbatim>\<open>blockFromWebsocketBlock\<close> fails when
  \<^verbatim>\<open>hash\<close> or \<^verbatim>\<open>parentHash\<close> is missing. The code never looks at either: it copies them
  into the block, missing or not.
\<close>

theorem blockFromWebsocketBlock_without_hash:
  "blockFromWebsocketBlock mainnet (subscription_block \<lparr> ws_hash := Undefined, ws_parentHash := Null \<rparr>) =
     Inr \<lparr> hash = Undefined, blockHeight = 14000000, parentHash = Null,
           difficulty = 10000000000, timestamp = 1638462912,
           baseFeePerGas = Val 1000000000, network = mainnet \<rparr>"
  by code_simp

text \<open>
  C6, as the code has it: the outcome of \<^verbatim>\<open>blockFromWebsocketBlock\<close> does not depend on
  \<^verbatim>\<open>hash\<close> and \<^verbatim>\<open>parentHash\<close>. With any two values in their place, missing ones included,
  it fails with the same error or returns the same block with these two values as its
  \<open>hash\<close> and \<open>parentHash\<close>.
\<close>

theorem blockFromWebsocketBlock_copies_hashes:
  "blockFromWebsocketBlock E (b \<lparr> ws_hash := h, ws_parentHash := p \<rparr>) =
     map_sum id (\<lambda>blk. blk \<lparr> hash := h, parentHash := p \<rparr>) (blockFromWebsocketBlock E b)"
  by (simp add: blockFromWebsocketBlock_def bind_def split: sum.splits)

theorem blockFromWebsocketBlock_copies_hashes_witness:
  "blockFromWebsocketBlock mainnet (subscription_block \<lparr> ws_hash := Null, ws_parentHash := Undefined \<rparr>) =
     Inr \<lparr> hash = Null, blockHeight = 14000000, parentHash = Undefined,
           difficulty = 10000000000, timestamp = 1638462912,
           baseFeePerGas = Val 1000000000, network = mainnet \<rparr>"
proof -
  have "blockFromWebsocketBlock mainnet subscription_block =
     Inr \<lparr> hash = Val ''0xaa11'', blockHeight = 14000000, parentHash = Val ''0xbb22'',
           difficulty = 10000000000, timestamp = 1638462912,
           baseFeePerGas = Val 1000000000, network = mainnet \<rparr>"
    by code_simp
  with blockFromWebsocketBlock_copies_hashes
    [where E = mainnet and b = subscription_block and h = Null and p = Undefined]
  show ?thesis by simp
qed

text \<open>
  C7 (block height and timestamp beyond the safe integers). Let \<^verbatim>\<open>number\<close> and
  \<^verbatim>\<open>timestamp\<close> be hexadecimal strings. When \<^verbatim>\<open>number\<close> denotes a value above
  \<open>MAX_SAFE_INTEGER\<close> the function throws the overflow fault. When \<^verbatim>\<open>timestamp\<close> does, the
  function returns no block; it throws the overflow fault unless an earlier property
  (\<^verbatim>\<open>number\<close>, \<^verbatim>\<open>difficulty\<close>) has thrown first. When both are within the safe range and
  the other fields decode, the block has exactly the two values denoted.
\<close>

theorem blockFromWebsocketBlock_safe_integers:
  assumes "ws_number b = Val (''0x'' @ h)" and "all_digits 16 h"
    and "ws_timestamp b = Val (''0x'' @ k)" and "all_digits 16 k"
  shows
    "(MAX_SAFE_INTEGER < big_endian_value 16 h \<longrightarrow>
        blockFromWebsocketBlock E b = Inl NumericFaultOverflow) \<and>
     (MAX_SAFE_INTEGER < big_endian_value 16 k \<longrightarrow>
        (\<exists>e. blockFromWebsocketBlock E b = Inl e) \<and>
        (big_endian_value 16 h \<le> MAX_SAFE_INTEGER \<and> BigInt (ws_difficulty b) = Inr d \<longrightarrow>
           blockFromWebsocketBlock E b = Inl NumericFaultOverflow)) \<and>
     (big_endian_value 16 h \<le> MAX_SAFE_INTEGER \<and> big_endian_value 16 k \<le> MAX_SAFE_INTEGER \<and>
      BigInt (ws_difficulty b) = Inr d \<and>
      (\<not> truthy_string (ws_baseFeePerGas b) \<or> BigInt (ws_baseFeePerGas b) = Inr f) \<longrightarrow>
        (\<exists>blk. blockFromWebsocketBlock E b = Inr blk \<and>
               blockHeight blk = big_endian_value 16 h \<and>
               timestamp blk = big_endian_value 16 k))"
proof -
  have n: "bind (BigNumber_from (ws_number b)) toNumber =
           (if big_endian_value 16 h \<le> MAX_SAFE_INTEGER then Inr (big_endian_value 16 h)
            else Inl NumericFaultOverflow)"
    unfolding assms(1) using assms(2) by (rule toNumber_hex)
  have t: "bind (BigNumber_from (ws_timestamp b)) toNumber =
           (if big_endian_value 16 k \<le> MAX_SAFE_INTEGER then Inr (big_endian_value 16 k)
            else Inl NumericFaultOverflow)"
    unfolding assms(3) using assms(4) by (rule toNumber_hex)
  have 1: "blockFromWebsocketBlock E b = Inl NumericFaultOverflow"
    if "MAX_SAFE_INTEGER < big_endian_value 16 h"
    using that by (simp add: blockFromWebsocketBlock_def n)
  have 2: "\<exists>e. blockFromWebsocketBlock E b = Inl e"
    if "MAX_SAFE_INTEGER < big_endian_value 16 k"
    using that by (cases "BigInt (ws_difficulty b)") (simp_all add: blockFromWebsocketBlock_def n t)
  have 3: "blockFromWebsocketBlock E b = Inl NumericFaultOverflow"
    if "MAX_SAFE_INTEGER < big_endian_value 16 k" "big_endian_value 16 h \<le> MAX_SAFE_INTEGER"
      "BigInt (ws_difficulty b) = Inr d"
    using that by (simp add: blockFromWebsocketBlock_def n t)
  have 4: "\<exists>blk. blockFromWebsocketBlock E b = Inr blk \<and>
               blockHeight blk = big_endian_value 16 h \<and>
               timestamp blk = big_endian_value 16 k"
    if "big_endian_value 16 h \<le> MAX_SAFE_INTEGER" "big_endian_value 16 k \<le> MAX_SAFE_INTEGER"
      "BigInt (ws_difficulty b) = Inr d"
      "\<not> truthy_string (ws_baseFeePerGas b) \<or> BigInt (ws_baseFeePerGas b) = Inr f"
    using that by (auto simp: blockFromWebsocketBlock_def n t)
  from 1 2 3 4 show ?thesis by blast
qed

theorem blockFromWebsocketBlock_safe_integers_witness:
  "blockFromWebsocketBlock mainnet (subscription_block \<lparr> ws_number := Val ''0x20000000000000'' \<rparr>) =
     Inl NumericFaultOverflow \<and>
   blockFromWebsocketBlock mainnet (subscription_block \<lparr> ws_timestamp := Val ''0x20000000000000'' \<rparr>) =
     Inl NumericFaultOverflow \<and>
   (\<exists>blk. blockFromWebsocketBlock mainnet (subscription_block \<lparr> ws_number := Val ''0x1fffffffffffff'' \<rparr>) =
       Inr blk \<and> blockHeight blk = 9007199254740991 \<and> timestamp blk = 1638462912)"
proof -
  have digits: "all_digits 16 ''20000000000000''" "all_digits 16 ''1fffffffffffff''"
    "all_digits 16 ''d59f80''" "all_digits 16 ''61a8f5c0''"
    by code_simp+
  have vals: "big_endian_value 16 ''20000000000000'' = 9007199254740992"
    "big_endian_value 16 ''1fffffffffffff'' = 9007199254740991"
    "big_endian_value 16 ''d59f80'' = 14000000"
    "big_endian_value 16 ''61a8f5c0'' = 1638462912"
    by code_simp+
  have rest: "BigInt (ws_difficulty subscription_block) = Inr 10000000000"
    "BigInt (ws_baseFeePerGas subscription_block) = Inr 1000000000"
    by code_simp+
  note m = MAX_SAFE_INTEGER_def
  let ?b1 = "subscription_block \<lparr> ws_number := Val ''0x20000000000000'' \<rparr>"
  let ?b2 = "subscription_block \<lparr> ws_timestamp := Val ''0x20000000000000'' \<rparr>"
  let ?b3 = "subscription_block \<lparr> ws_number := Val ''0x1fffffffffffff'' \<rparr>"
  have a: "blockFromWebsocketBlock mainnet ?b1 = Inl NumericFaultOverflow"
    using blockFromWebsocketBlock_safe_integers
      [where b = ?b1 and h = "''20000000000000''" and k = "''61a8f5c0''" and E = mainnet] digits vals
    by (simp add: subscription_block_def m)
  have b: "blockFromWebsocketBlock mainnet ?b2 = Inl NumericFaultOverflow"
    using blockFromWebsocketBlock_safe_integers
      [where b = ?b2 and h = "''d59f80''" and k = "''20000000000000''" and E = mainnet
        and d = 10000000000] digits vals rest
    by (simp add: subscription_block_def m)
  have c: "\<exists>blk. blockFromWebsocketBlock mainnet ?b3 = Inr blk \<and>
      blockHeight blk = 9007199254740991 \<and> timestamp blk = 1638462912"
    using blockFromWebsocketBlock_safe_integers
      [where b = ?b3 and h = "''1fffffffffffff''" and k = "''61a8f5c0''" and E = mainnet
        and d = 10000000000 and f = 1000000000] digits vals rest
    by (simp add: subscription_block_def m)
  from a b c show ?thesis by blast
qed

subsection \<open>Transactions of a subscription\<close>




text \<open>
  C10 (a payload without \<open>v\<close>). When \<^verbatim>\<open>v\<close> is missing (\<open>Undefined\<close> or \<open>Null\<close>) the function
  returns no transaction: \<^verbatim>\<open>BigNumber.from\<close> throws on it, unless an earlier field has
  thrown already. A missing \<^verbatim>\<open>r\<close> or \<^verbatim>\<open>s\<close> changes nothing but the field itself, which is
  \<open>Undefined\<close> in the transaction.
\<close>

theorem txFromWebsocketTx_without_v:
  "(w_v tx = Undefined \<or> w_v tx = Null \<longrightarrow> (\<exists>e. txFromWebsocketTx tx asset net = Inl e)) \<and>
   (x = Undefined \<or> x = Null \<longrightarrow>
      txFromWebsocketTx (tx \<lparr> w_r := x \<rparr>) asset net =
        map_sum id (\<lambda>t. t \<lparr> t_r := Undefined \<rparr>) (txFromWebsocketTx tx asset net) \<and>
      txFromWebsocketTx (tx \<lparr> w_s := x \<rparr>) asset net =
        map_sum id (\<lambda>t. t \<lparr> t_s := Undefined \<rparr>) (txFromWebsocketTx tx asset net))"
proof -
  have v: "bind (bind (BigNumber_from (w_v tx)) toNumber) g = Inl InvalidArgument"
    if "w_v tx = Undefined \<or> w_v tx = Null" for g :: "int \<Rightarrow> error + evm_transaction"
    using that by (auto simp: BigNumber_from_def)
  have 1: "\<exists>e. txFromWebsocketTx tx asset net = Inl e"
    if "w_v tx = Undefined \<or> w_v tx = Null"
    unfolding txFromWebsocketTx_def v [OF that]
    by (auto simp: bind_def split: sum.splits)
  have 2: "txFromWebsocketTx (tx \<lparr> w_r := x \<rparr>) asset net =
        map_sum id (\<lambda>t. t \<lparr> t_r := Undefined \<rparr>) (txFromWebsocketTx tx asset net)"
    if "x = Undefined \<or> x = Null"
    using that
    by (auto simp: txFromWebsocketTx_def truthy_string_def bind_def split: sum.splits)
  have 3: "txFromWebsocketTx (tx \<lparr> w_s := x \<rparr>) asset net =
        map_sum id (\<lambda>t. t \<lparr> t_s := Undefined \<rparr>) (txFromWebsocketTx tx asset net)"
    if "x = Undefined \<or> x = Null"
    using that
    by (auto simp: txFromWebsocketTx_def truthy_string_def bind_def split: sum.splits)
  from 1 2 3 show ?thesis by blast
qed

theorem txFromWebsocketTx_without_v_witness:
  "(\<exists>e. txFromWebsocketTx (subscription_tx \<lparr> w_v := Undefined \<rparr>) ETH mainnet = Inl e) \<and>
   (\<exists>t. txFromWebsocketTx (subscription_tx \<lparr> w_r := Null \<rparr>) ETH mainnet = Inr t \<and>
        t_r t = Undefined \<and> t_s t = Val ''0x2'' \<and> t_v t = Val 27) \<and>
   (\<exists>t. txFromWebsocketTx (subscription_tx \<lparr> w_s := Undefined \<rparr>) ETH mainnet = Inr t \<and>
        t_r t = Val ''0x1'' \<and> t_s t = Undefined \<and> t_v t = Val 27)"
proof -
  let ?u = "\<lparr> t_hash = Val ''0x5c50'',
       t_from = Val ''0xfb6916095ca1df60bb79ce92ce3ea74c37c5d359'',
       t_to = Val ''0x6b175474e89094c44da98b954eedeac495271d0f'',
       t_nonce = Num 7,
       t_gasLimit = 21000,
       t_gasPrice = Val 10000000000,
       t_maxFeePerGas = Null,
       t_maxPriorityFeePerGas = Null,
       t_value = 1000000000000000000,
       t_input = Val ''0x'',
       t_type = Val 0,
       t_blockHash = Null,
       t_blockHeight = Null,
       t_network = mainnet,
       t_asset = ETH,
       t_r = Val ''0x1'',
       t_s = Val ''0x2'',
       t_v = Val 27 \<rparr>"
  have full: "txFromWebsocketTx subscription_tx ETH mainnet = Inr ?u"
    by code_simp
  have absent: "w_v (subscription_tx \<lparr> w_v := Undefined \<rparr>) = Undefined"
    by simp
  from txFromWebsocketTx_without_v
    [where tx = "subscription_tx \<lparr> w_v := Undefined \<rparr>" and asset = ETH and net = mainnet] absent
  have a: "\<exists>e. txFromWebsocketTx (subscription_tx \<lparr> w_v := Undefined \<rparr>) ETH mainnet = Inl e"
    by blast
  from txFromWebsocketTx_without_v
    [where tx = subscription_tx and x = Null and asset = ETH and net = mainnet]
  have b: "txFromWebsocketTx (subscription_tx \<lparr> w_r := Null \<rparr>) ETH mainnet =
      Inr (?u \<lparr> t_r := Undefined \<rparr>)"
    unfolding full by simp
  from txFromWebsocketTx_without_v
    [where tx = subscription_tx and x = Undefined and asset = ETH and net = mainnet]
  have c: "txFromWebsocketTx (subscription_tx \<lparr> w_s := Undefined \<rparr>) ETH mainnet =
      Inr (?u \<lparr> t_s := Undefined \<rparr>)"
    unfolding full by simp
  from a b c show ?thesis by simp
qed

subsection \<open>The network of the provider\<close>

text \<open>
  C9 (the provider's network). The name is \<^verbatim>\<open>homestead\<close> for the network called
  \<^verbatim>\<open>Ethereum\<close> and the lower-cased name for any other. When the chain ID is a string of
  decimal digits, \<^verbatim>\<open>chainId\<close> is the Number nearest to the integer it denotes: the integer
  itself up to \<open>MAX_SAFE_INTEGER\<close>.
\<close>

theorem networkToEthersNetwork_result:
  "en_name (networkToEthersNetwork net) =
     (if name net = ''Ethereum'' then ''homestead'' else toLowerCase (name net)) \<and>
   (all_digits 10 (chainID net) \<longrightarrow>
      en_chainId (networkToEthersNetwork net) = to_number (big_endian_value 10 (chainID net))) \<and>
   (all_digits 10 (chainID net) \<and> big_endian_value 10 (chainID net) \<le> MAX_SAFE_INTEGER \<longrightarrow>
      en_chainId (networkToEthersNetwork net) = Num (big_endian_value 10 (chainID net)))"
proof -
  have n: "en_chainId (networkToEthersNetwork net) = to_number (big_endian_value 10 (chainID net))"
    if "all_digits 10 (chainID net)"
    using that by (simp add: networkToEthersNetwork_def Number_string_digits)
  have s: "en_chainId (networkToEthersNetwork net) = Num (big_endian_value 10 (chainID net))"
    if "all_digits 10 (chainID net)" "big_endian_value 10 (chainID net) \<le> MAX_SAFE_INTEGER"
  proof -
    have "0 \<le> big_endian_value 10 (chainID net)" by (rule big_endian_value_nonneg) simp
    with that(2) have "\<bar>big_endian_value 10 (chainID net)\<bar> \<le> MAX_SAFE_INTEGER" by simp
    then show ?thesis unfolding n [OF that(1)] by (rule to_number_safe)
  qed
  from n s show ?thesis by (simp add: networkToEthersNetwork_def)
qed

theorem networkToEthersNetwork_result_witness:
  "networkToEthersNetwork mainnet = \<lparr> en_name = ''homestead'', en_chainId = Num 1 \<rparr> \<and>
   networkToEthersNetwork polygon = \<lparr> en_name = ''polygon'', en_chainId = Num 137 \<rparr>"
proof -
  have d: "all_digits 10 (chainID mainnet)" "all_digits 10 (chainID polygon)"
    by code_simp+
  have v: "big_endian_value 10 (chainID mainnet) = 1" "big_endian_value 10 (chainID polygon) = 137"
    by code_simp+
  have l: "toLowerCase (name polygon) = ''polygon''"
    by code_simp
  have nm: "name mainnet = ''Ethereum''" "name polygon \<noteq> ''Ethereum''"
    by (simp_all add: mainnet_def polygon_def)
  have tn: "to_number 1 = Num 1" "to_number 137 = Num 137"
    by code_simp+
  from networkToEthersNetwork_result [of mainnet] d v nm
  have a: "en_name (networkToEthersNetwork mainnet) = ''homestead''"
    "en_chainId (networkToEthersNetwork mainnet) = Num 1"
    by (simp_all add: MAX_SAFE_INTEGER_def tn)
  from networkToEthersNetwork_result [of polygon] d v nm l
  have b: "en_name (networkToEthersNetwork polygon) = ''polygon''"
    "en_chainId (networkToEthersNetwork polygon) = Num 137"
    by (simp_all add: MAX_SAFE_INTEGER_def tn)
  from a b show ?thesis
    by (simp add: ethers_network.equality)
qed

end
